theory Spec2Isabelle
  imports Complex_Main
begin

section \<open>Conventions of the embedding\<close>

text \<open>
  The program is JavaScript. Its numbers are IEEE 754 doubles. A finite double is a
  rational number, so prices, amounts and percentages have the type \<^typ>\<open>rat\<close>;
  millisecond timestamps and lamport counts are integers.

  In \<open>live-trader.js\<close> every \<open>+\<close>, \<open>-\<close>, \<open>*\<close> and \<open>/\<close> on such numbers is modelled with the
  rounding of the double operation (\<open>dadd\<close>, \<open>dsub\<close>, \<open>dmul\<close>, \<open>ddiv\<close> below), and a
  decimal literal of the source stands for the double nearest to it. Where the source
  divides by zero, JavaScript goes on with \<open>Infinity\<close> or \<open>NaN\<close>; the model writes out what
  the source then does, by cases on the signs.

  In \<open>arbitrage.js\<close> (\<open>findArbitrageOpportunities\<close>) the arithmetic is that of exact
  rationals, without rounding, and a division by zero gives the explicit value
  \<open>Inl NonFinite\<close>: the model does not follow the source into \<open>Infinity\<close> and \<open>NaN\<close> there.

  Record fields carry a short prefix (\<open>pp_\<close>, \<open>opp_\<close>, \<open>tr_\<close>, \<open>cfg_\<close>, \<open>lt_\<close>, \<open>bot_\<close>),
  since the source reuses field names such as \<open>timestamp\<close> and \<open>buyPrice\<close> across objects.
  Console output is modelled only for \<open>findArbitrageOpportunities\<close>, where a claim is about it.
\<close>

datatype error = NonFinite | ReferenceError | TypeError

section \<open>Double-precision arithmetic\<close>

text \<open>
  The result of an arithmetic operation on doubles is the exact result rounded to the
  nearest double, ties to the even significand. \<open>round_double\<close> is that rounding for
  results in the normal range (a magnitude from \<open>2 ^ -1022\<close> up to \<open>2 ^ 1024\<close>, which covers
  every amount in USD or SOL): a double has a significand of 53 bits, so a number \<open>a\<close> with
  \<open>2 ^ e \<le> a < 2 ^ (e + 1)\<close> is rounded to a multiple of \<open>2 ^ (e - 52)\<close>. Underflow to
  subnormal numbers and overflow to \<open>Infinity\<close> are not modelled.
\<close>

text \<open>The number of binary digits of a positive integer.\<close>

function bit_length :: "int \<Rightarrow> int" where
  "bit_length n = (if n \<le> 0 then 0 else 1 + bit_length (n div 2))"
  by pat_completeness auto
termination
  by (relation "measure nat") auto

declare bit_length.simps [simp del]

definition pow2 :: "int \<Rightarrow> rat" where
  "pow2 e = (if 0 \<le> e then 2 ^ nat e else 1 / 2 ^ nat (- e))"

text \<open>For \<open>a > 0\<close>, the \<open>e\<close> with \<open>2 ^ e \<le> a < 2 ^ (e + 1)\<close>.\<close>

definition exponent :: "rat \<Rightarrow> int" where
  "exponent a =
     (if 1 \<le> a then bit_length \<lfloor>a\<rfloor> - 1
      else - bit_length (\<lceil>1 / a\<rceil> - 1))"

definition round_half_even :: "rat \<Rightarrow> int" where
  "round_half_even q =
     (let n = \<lfloor>q\<rfloor>; f = q - of_int n
      in if f < 1 / 2 then n
         else if 1 / 2 < f then n + 1
         else if even n then n else n + 1)"

definition round_double :: "rat \<Rightarrow> rat" where
  "round_double x =
     (if x = 0 then 0
      else let a = \<bar>x\<bar>;
               ulp = pow2 (exponent a - 52);
               r = of_int (round_half_even (a / ulp)) * ulp
           in if x < 0 then - r else r)"

text \<open>The four operations on doubles; \<open>ddiv\<close> is used with a non-zero divisor only.\<close>

definition dadd :: "rat \<Rightarrow> rat \<Rightarrow> rat" where
  "dadd a b = round_double (a + b)"

definition dsub :: "rat \<Rightarrow> rat \<Rightarrow> rat" where
  "dsub a b = round_double (a - b)"

definition dmul :: "rat \<Rightarrow> rat \<Rightarrow> rat" where
  "dmul a b = round_double (a * b)"

definition ddiv :: "rat \<Rightarrow> rat \<Rightarrow> rat" where
  "ddiv a b = round_double (a / b)"

section \<open>index.js: the scan scheduler of \<open>SolanaArbitrageBot\<close>\<close>

text \<open>
  \<open>scanAndTrade\<close> is an async function: its synchronous prefix sets \<open>this.scanning = true\<close>,
  then it awaits network calls, and on each of its two return paths it sets
  \<open>this.scanning = false\<close>. Between the two, other callbacks of the event loop run. The
  model keeps the two fields of the bot the scheduler uses and, as a ghost field, the list
  of \<open>scanAndTrade\<close> invocations that have started and not yet returned, each tagged with
  the caller that started it.
\<close>

datatype trigger = Boot | Push | Fallback

record bot =
  bot_scanning :: bool
  bot_fallbackTimer :: bool
  bot_inflight :: "trigger list"

definition bot_init :: bot where
  "bot_init = \<lparr>bot_scanning = False, bot_fallbackTimer = False, bot_inflight = []\<rparr>"

text \<open>The synchronous prefix of \<open>scanAndTrade\<close>, called from \<open>who\<close>.\<close>

definition scanAndTrade_begin :: "trigger \<Rightarrow> bot \<Rightarrow> bot" where
  "scanAndTrade_begin who b = b\<lparr>bot_scanning := True, bot_inflight := bot_inflight b @ [who]\<rparr>"

text \<open>\<open>_resetFallbackTimer\<close>: clears the pending timer, if any, and arms a new one.\<close>

definition resetFallbackTimer :: "bot \<Rightarrow> bot" where
  "resetFallbackTimer b = b\<lparr>bot_fallbackTimer := True\<rparr>"

text \<open>\<open>start\<close>, after the monitor is up: arm the fallback timer, then the initial scan.\<close>

definition start :: "bot \<Rightarrow> bot" where
  "start b = scanAndTrade_begin Boot (resetFallbackTimer b)"

text \<open>\<open>_onSwapEvent\<close>: the push trigger. It returns at once when \<open>this.scanning\<close> is set.\<close>

definition onSwapEvent :: "bot \<Rightarrow> bot" where
  "onSwapEvent b =
     (if bot_scanning b then b
      else scanAndTrade_begin Push (resetFallbackTimer b))"

text \<open>
  The callback armed by \<open>_resetFallbackTimer\<close>. A timer that is not pending cannot fire.
  The callback calls \<open>scanAndTrade\<close> without reading \<open>this.scanning\<close>.
\<close>

definition fallbackFires :: "bot \<Rightarrow> bot" where
  "fallbackFires b =
     (if bot_fallbackTimer b
      then scanAndTrade_begin Fallback (b\<lparr>bot_fallbackTimer := False\<rparr>)
      else b)"

text \<open>
  The \<open>k\<close>-th invocation in flight returns: \<open>this.scanning = false\<close>; the continuation of
  the fallback callback then re-arms the timer.
\<close>

definition scanReturns :: "nat \<Rightarrow> bot \<Rightarrow> bot" where
  "scanReturns k b =
     (if k < length (bot_inflight b)
      then let who = bot_inflight b ! k;
               b' = b\<lparr>bot_scanning := False,
                      bot_inflight := take k (bot_inflight b) @ drop (Suc k) (bot_inflight b)\<rparr>
           in if who = Fallback then resetFallbackTimer b' else b'
      else b)"

datatype event = Start | SwapEvent | FallbackTimer | ScanReturns nat

fun step :: "bot \<Rightarrow> event \<Rightarrow> bot" where
  "step b Start = start b"
| "step b SwapEvent = onSwapEvent b"
| "step b FallbackTimer = fallbackFires b"
| "step b (ScanReturns k) = scanReturns k b"

definition run :: "event list \<Rightarrow> bot" where
  "run evs = foldl step bot_init evs"

section \<open>config.js\<close>

text \<open>
  The fields of \<open>config\<close> that the modelled functions read. \<open>config.js\<close> defines no
  \<open>discoverySlippage\<close> and no \<open>discordWebhookUrl\<close>: a read of either yields \<open>undefined\<close>, which
  is \<open>None\<close> here. The fields are kept as options so that the expressions of \<open>arbitrage.js\<close>
  that read them are modelled as written.
\<close>

record config =
  cfg_discoverySlippage :: "rat option"
  cfg_slippageTolerance :: rat
  cfg_minProfitPercent :: rat
  cfg_minProfitAbsolute :: rat
  cfg_maxTradeAmountUsd :: rat
  cfg_maxDailyLossUsd :: rat
  cfg_sellRetryCount :: int
  cfg_solGasReserve :: rat
  cfg_startingCapital :: rat
  cfg_dryRun :: bool
  cfg_discordWebhook :: string
  cfg_discordWebhookUrl :: "string option"

section \<open>live-trader.js: \<open>LiveTrader\<close>\<close>

record opp =
  opp_buyExchange :: string
  opp_sellExchange :: string
  opp_buyPrice :: rat
  opp_sellPrice :: rat
  opp_profitPercent :: rat
  opp_timestamp :: int

text \<open>\<open>scanForOpportunities\<close> spreads each scanner result into an object with a \<open>pair\<close>.\<close>

record opportunity = opp +
  opp_pair :: string

record trade =
  tr_timestamp :: int
  tr_pair :: string
  tr_buyExchange :: string
  tr_sellExchange :: string
  tr_buyPrice :: rat
  tr_sellPrice :: rat
  tr_amount :: rat
  tr_profitUsd :: rat
  tr_profitPercent :: rat
  tr_simulated :: bool
  tr_executed :: bool
  tr_notes :: string

text \<open>The row \<open>dbQueries.getCurrentBalance()\<close> returns (\<open>None\<close> for \<open>undefined\<close>).\<close>

record balance_row =
  br_balance_usd :: rat
  br_total_trades :: int
  br_winning_trades :: int
  br_total_profit :: rat

text \<open>
  Calls that leave the process: \<open>notifier.send\<close> with each of the four messages of
  \<open>executeTrade\<close>, and the two ledger writes.
\<close>

datatype effect =
    NotifyAdaptiveRaise string nat
  | NotifyPartialTrade string string int rat
  | NotifyRevert string
  | NotifyDiscrepancy string rat rat
  | RecordTrade trade
  | UpdateBalance rat int int rat

record live_trader =
  lt_dryRun :: bool
  lt_balance :: rat
  lt_solPriceUsd :: "rat option"
  lt_solPriceTs :: int
  lt_dailyLoss :: rat
  lt_dailyLossReset :: int
  lt_halted :: bool
  lt_sellFailureCounts :: "string \<rightharpoonup> nat"
  lt_failureThreshold :: nat
  lt_raisedMinProfitPct :: rat

definition LAMPORTS_PER_SOL :: rat where
  "LAMPORTS_PER_SOL = 1000000000"

text \<open>\<open>_todayMidnightUtc\<close>: \<open>setUTCHours(24, 0, 0, 0)\<close> on the current date, in milliseconds.\<close>

definition todayMidnightUtc :: "int \<Rightarrow> int" where
  "todayMidnightUtc now = (now div 86400000 + 1) * 86400000"

text \<open>The constructor, at clock reading \<open>now\<close>.\<close>

definition new_LiveTrader :: "config \<Rightarrow> int \<Rightarrow> live_trader" where
  "new_LiveTrader cfg now =
     \<lparr>lt_dryRun = cfg_dryRun cfg, lt_balance = cfg_startingCapital cfg,
      lt_solPriceUsd = None, lt_solPriceTs = 0,
      lt_dailyLoss = 0, lt_dailyLossReset = todayMidnightUtc now, lt_halted = False,
      lt_sellFailureCounts = Map.empty, lt_failureThreshold = 3,
      lt_raisedMinProfitPct = round_double (1 / 100)\<rparr>"

text \<open>JavaScript truthiness of a transaction id: \<open>null\<close> and the empty string are falsy.\<close>

definition truthy :: "string option \<Rightarrow> bool" where
  "truthy r = (case r of None \<Rightarrow> False | Some s \<Rightarrow> s \<noteq> [])"

definition tx_text :: "string option \<Rightarrow> string" where
  "tx_text r = (case r of None \<Rightarrow> [] | Some s \<Rightarrow> s)"

text \<open>\<open>this._sellFailureCounts[pairKey] || 0\<close>.\<close>

definition failures_of :: "live_trader \<Rightarrow> string \<Rightarrow> nat" where
  "failures_of t pairKey = (case lt_sellFailureCounts t pairKey of None \<Rightarrow> 0 | Some c \<Rightarrow> c)"

text \<open>
  \<open>_fetchSolPrice\<close>: the cached price while it is truthy and younger than 60 s, else the
  spot price \<open>api\<close> (\<open>None\<close> when the request fails: the cached price, or 0 when there is none).
\<close>

definition fetchSolPrice :: "int \<Rightarrow> rat option \<Rightarrow> live_trader \<Rightarrow> rat \<times> live_trader" where
  "fetchSolPrice now api t =
     (let cached = (case lt_solPriceUsd t of None \<Rightarrow> 0 | Some p \<Rightarrow> p)
      in if cached \<noteq> 0 \<and> now - lt_solPriceTs t < 60000 then (cached, t)
         else (case api of
                 Some p \<Rightarrow> (p, t\<lparr>lt_solPriceUsd := Some p, lt_solPriceTs := now\<rparr>)
               | None \<Rightarrow> (cached, t)))"

text \<open>\<open>usdToLamports\<close>, for \<open>solPriceUsd \<noteq> 0\<close> (see \<open>preflight\<close> for the other case).\<close>

definition usdToLamports :: "rat \<Rightarrow> rat \<Rightarrow> int" where
  "usdToLamports usd solPriceUsd = \<lfloor>dmul (ddiv usd solPriceUsd) LAMPORTS_PER_SOL\<rfloor>"

text \<open>\<open>_getEffectiveMinProfitPercent\<close>; \<open>pair || ''\<close> is \<open>pair\<close> for every string.\<close>

definition getEffectiveMinProfitPercent :: "config \<Rightarrow> live_trader \<Rightarrow> string \<Rightarrow> rat" where
  "getEffectiveMinProfitPercent cfg t pair =
     (if failures_of t pair \<ge> lt_failureThreshold t then lt_raisedMinProfitPct t
      else cfg_minProfitPercent cfg)"

text \<open>
  \<open>_calcTradeAmount\<close>; it returns 0 for "skip". With \<open>opportunity.buyPrice = 0\<close> the quotient
  \<open>profitPerDollar\<close> is \<open>Infinity\<close>, \<open>-Infinity\<close> or \<open>NaN\<close> (for a positive, negative, zero
  numerator) and so is the product \<open>estimatedProfit\<close>; the comparison
  \<open>estimatedProfit < config.minProfitAbsolute\<close> is true for \<open>-Infinity\<close> only, that is when
  numerator and trade amount are non-zero and of opposite signs. (A rational has one zero:
  the price 0 is taken as \<open>+0\<close>.)
\<close>

definition calcTradeAmount :: "config \<Rightarrow> live_trader \<Rightarrow> opportunity \<Rightarrow> rat" where
  "calcTradeAmount cfg t opportunity =
     (let maxByConfig = cfg_maxTradeAmountUsd cfg;
          maxByBalance = dmul (lt_balance t) (round_double (95 / 100));
          tradeAmount = min maxByConfig maxByBalance;
          numerator = dsub (opp_sellPrice opportunity) (opp_buyPrice opportunity)
      in if opp_buyPrice opportunity = 0
         then (if (numerator < 0 \<and> 0 < tradeAmount) \<or> (0 < numerator \<and> tradeAmount < 0)
               then 0 else tradeAmount)
         else let profitPerDollar = ddiv numerator (opp_buyPrice opportunity);
                  estimatedProfit = dmul tradeAmount profitPerDollar
              in if estimatedProfit < cfg_minProfitAbsolute cfg then 0 else tradeAmount)"

text \<open>
  \<open>_assertGasReserve\<close>: \<open>True\<close> when it returns, \<open>False\<close> when it throws (the wallet read
  \<open>lamports\<close> is \<open>None\<close> when \<open>getBalance\<close> throws).
\<close>

definition assertGasReserve :: "config \<Rightarrow> int option \<Rightarrow> rat \<Rightarrow> rat \<Rightarrow> bool" where
  "assertGasReserve cfg lamports tradeAmountUsd solPriceUsd =
     (case lamports of
        None \<Rightarrow> False
      | Some l \<Rightarrow>
          let solBalance = ddiv (of_int l) LAMPORTS_PER_SOL;
              tradeSol = (if solPriceUsd > 0 then ddiv tradeAmountUsd solPriceUsd else 0);
              required = dadd (cfg_solGasReserve cfg) tradeSol
          in \<not> solBalance < required)"

text \<open>\<open>_recordLoss\<close>, at clock reading \<open>now\<close>.\<close>

definition recordLoss :: "config \<Rightarrow> int \<Rightarrow> rat \<Rightarrow> live_trader \<Rightarrow> live_trader" where
  "recordLoss cfg now amount t =
     (let t1 = (if now \<ge> lt_dailyLossReset t
                then t\<lparr>lt_dailyLoss := 0, lt_dailyLossReset := todayMidnightUtc now\<rparr>
                else t);
          t2 = t1\<lparr>lt_dailyLoss := dadd (lt_dailyLoss t1) amount\<rparr>
      in if lt_dailyLoss t2 \<ge> cfg_maxDailyLossUsd cfg then t2\<lparr>lt_halted := True\<rparr> else t2)"

text \<open>
  What one call of \<open>executeTrade\<close> receives from outside the process: the clock
  (\<open>Date.now()\<close>, one reading per call), the spot-price response, the wallet balance, the
  parsed \<open>outAmount\<close> of the two Jupiter quotes (\<open>None\<close> when \<open>_getQuote\<close> returns \<open>null\<close>), what
  \<open>_submitSwap\<close> would return for the buy leg and for each numbered sell attempt, the
  environment variable \<open>ALERT_QUOTE_DIFF_USD\<close> and the ledger's current balance row.
\<close>

record trade_env =
  env_now :: int
  env_solApi :: "rat option"
  env_walletLamports :: "int option"
  env_buyQuote :: "nat option"
  env_sellQuote :: "nat option"
  env_buySubmit :: "string option"
  env_sellSubmit :: "nat \<Rightarrow> string option"
  env_alertThresh :: rat
  env_balanceRecord :: "balance_row option"

text \<open>
  The sell loop of \<open>executeTrade\<close>:
  \<open>while (attemptSell <= sellRetries && !sellTxId) { attemptSell++; sellTxId = submit; ... }\<close>.
  Attempts are numbered from 1; the result is the first truthy transaction id.
\<close>

function sellLoop :: "(nat \<Rightarrow> string option) \<Rightarrow> int \<Rightarrow> nat \<Rightarrow> string option" where
  "sellLoop submit sellRetries attemptSell =
     (if int attemptSell \<le> sellRetries
      then if truthy (submit (Suc attemptSell)) then submit (Suc attemptSell)
           else sellLoop submit sellRetries (Suc attemptSell)
      else None)"
  by pat_completeness auto
termination
  by (relation "measure (\<lambda>(submit, sellRetries, attemptSell). nat (sellRetries + 1 - int attemptSell))")
     auto

declare sellLoop.simps [simp del]

text \<open>
  \<open>this._simulateSwap(quote, label)\<close>, which \<open>executeTrade\<close> calls for each leg before it
  submits anything. The class \<open>LiveTrader\<close> defines no method of that name and nothing
  assigns one: the name occurs at the two call sites only. \<open>this._simulateSwap\<close> therefore
  evaluates to \<open>undefined\<close> and the call throws a \<open>TypeError\<close>, whatever the quote.
\<close>

definition simulateSwap :: "error + bool" where
  "simulateSwap = Inl TypeError"

text \<open>
  The discrepancy alert of \<open>executeTrade\<close>, sent when \<open>ALERT_QUOTE_DIFF_USD\<close> is positive and
  the profit of the live quotes differs from the profit of the scanned prices by at least it.
\<close>

definition discrepancyAlert :: "trade_env \<Rightarrow> opportunity \<Rightarrow> rat \<Rightarrow> rat \<Rightarrow> effect list" where
  "discrepancyAlert env opportunity tradeAmountUsd realProfit =
     (let quotedProfitUsd =
            (if opp_buyPrice opportunity \<noteq> 0 \<and> opp_sellPrice opportunity \<noteq> 0
                \<and> opp_buyPrice opportunity > 0
             then dmul tradeAmountUsd
                    (ddiv (dsub (opp_sellPrice opportunity) (opp_buyPrice opportunity))
                       (opp_buyPrice opportunity))
             else 0);
          diff = \<bar>dsub realProfit quotedProfitUsd\<bar>
      in if env_alertThresh env > 0 \<and> diff \<ge> env_alertThresh env
         then [NotifyDiscrepancy (opp_pair opportunity) quotedProfitUsd realProfit] else [])"

text \<open>
  The amounts of step 4 that the later steps use. \<open>realProfitPct\<close> is kept only where it is a
  number (\<open>realBuyUsd \<noteq> 0\<close>).
\<close>

record quoted =
  q_tradeAmountUsd :: rat
  q_realBuyUsd :: rat
  q_realSellUsd :: rat
  q_realProfit :: rat
  q_realProfitPct :: rat

text \<open>The trade record that \<open>executeTrade\<close> builds, returns and writes to the ledger.\<close>

definition tradeRecord ::
  "trade_env \<Rightarrow> opportunity \<Rightarrow> quoted \<Rightarrow> bool \<Rightarrow> string option \<Rightarrow> string option \<Rightarrow> trade" where
  "tradeRecord env opportunity q dryRun buyTxId sellTxId =
     \<lparr>tr_timestamp = env_now env,
      tr_pair = opp_pair opportunity,
      tr_buyExchange = opp_buyExchange opportunity,
      tr_sellExchange = opp_sellExchange opportunity,
      tr_buyPrice = q_realBuyUsd q,
      tr_sellPrice = q_realSellUsd q,
      tr_amount = q_tradeAmountUsd q,
      tr_profitUsd = q_realProfit q,
      tr_profitPercent = q_realProfitPct q,
      tr_simulated = dryRun,
      tr_executed = True,
      tr_notes = ''buy_tx='' @ (if truthy buyTxId then tx_text buyTxId else [])
                 @ (if truthy sellTxId then '' sell_tx='' @ tx_text sellTxId else [])\<rparr>"

text \<open>
  Step 6 of \<open>executeTrade\<close> and what follows it: balance, circuit breaker, the trade
  record, the discrepancy alert, the two ledger writes.
\<close>

definition settle ::
  "config \<Rightarrow> trade_env \<Rightarrow> opportunity \<Rightarrow> quoted \<Rightarrow> string option \<Rightarrow> string option
   \<Rightarrow> live_trader \<Rightarrow> trade \<times> live_trader \<times> effect list" where
  "settle cfg env opportunity q buyTxId sellTxId t =
     (let realProfit = q_realProfit q;
          t1 = t\<lparr>lt_balance := dadd (lt_balance t) realProfit\<rparr>;
          t2 = (if realProfit < 0 then recordLoss cfg (env_now env) \<bar>realProfit\<bar> t1 else t1);
          trade = tradeRecord env opportunity q (lt_dryRun t) buyTxId sellTxId;
          newTotalTrades =
            (case env_balanceRecord env of None \<Rightarrow> 0 | Some r \<Rightarrow> br_total_trades r) + 1;
          newWinningTrades =
            (case env_balanceRecord env of None \<Rightarrow> 0 | Some r \<Rightarrow> br_winning_trades r)
            + (if realProfit > 0 then 1 else 0);
          newTotalProfit =
            dadd (case env_balanceRecord env of None \<Rightarrow> 0 | Some r \<Rightarrow> br_total_profit r)
              realProfit
      in (trade, t2,
          discrepancyAlert env opportunity (q_tradeAmountUsd q) realProfit
          @ [RecordTrade trade,
             UpdateBalance (lt_balance t2) newTotalTrades newWinningTrades newTotalProfit]))"

text \<open>
  Step 5 of \<open>executeTrade\<close> after the simulations: the two submissions, and the bookkeeping
  of the per-pair failure counter with its notifications. \<open>None\<close> is the throw
  \<open>'Buy tx failed'\<close>; otherwise the two transaction ids, the trader and the alerts sent.
\<close>

definition submitLegs ::
  "config \<Rightarrow> trade_env \<Rightarrow> opportunity \<Rightarrow> rat \<Rightarrow> live_trader
   \<Rightarrow> (string option \<times> string option \<times> live_trader \<times> effect list) option" where
  "submitLegs cfg env opportunity tradeAmountUsd t =
     (if \<not> lt_dryRun t then
        if \<not> truthy (env_buySubmit env) then None
        else
          let sellRetries = cfg_sellRetryCount cfg;
              sellTxId = sellLoop (env_sellSubmit env) sellRetries 0;
              pairKey = opp_pair opportunity
          in if \<not> truthy sellTxId then
               let c = failures_of t pairKey + 1;
                   t' = t\<lparr>lt_sellFailureCounts := (lt_sellFailureCounts t)(pairKey \<mapsto> c)\<rparr>
               in Some (env_buySubmit env, sellTxId, t',
                        (if c \<ge> lt_failureThreshold t then [NotifyAdaptiveRaise pairKey c] else [])
                        @ [NotifyPartialTrade pairKey (tx_text (env_buySubmit env))
                             (sellRetries + 1) tradeAmountUsd])
             else if failures_of t pairKey \<noteq> 0 then
               Some (env_buySubmit env, sellTxId,
                     t\<lparr>lt_sellFailureCounts := (lt_sellFailureCounts t)(pairKey \<mapsto> 0)\<rparr>,
                     [NotifyRevert pairKey])
             else Some (env_buySubmit env, sellTxId, t, [])
      else Some (Some ''dry-run-buy'', Some ''dry-run-sell'', t, []))"

text \<open>
  \<open>executeTrade\<close> is embedded in three parts, in the order of its body: \<open>preflight\<close> (the
  circuit-breaker check, the sizing, steps 0 to 4 and the two simulations of step 5),
  \<open>submitLegs\<close> (the submissions of step 5) and \<open>settle\<close> (step 6 to the end). \<open>preflight\<close>
  yields the amounts the later steps use, or \<open>None\<close> where the source returns \<open>null\<close> or throws
  into its own \<open>catch\<close>, which returns \<open>null\<close>; the trader it returns carries the refreshed
  price cache.

  Within the \<open>try\<close> block nothing changes the trader between \<open>_fetchSolPrice\<close> and the
  simulations, and the first simulation throws. So every path that enters the block ends
  in \<open>return null\<close> with the trader as \<open>_fetchSolPrice\<close> left it. This holds as well where the
  arithmetic leaves the finite numbers: with a SOL price of 0 the lamport amount of the buy
  quote is \<open>Infinity\<close> or \<open>NaN\<close> and \<open>realProfit\<close> is \<open>NaN\<close>, and with \<open>realBuyUsd = 0\<close> and a positive
  profit \<open>realProfitPct\<close> is \<open>Infinity\<close>; neither test of step 4 is then true, and the source
  goes on to the simulation (unless a quote was \<open>null\<close>). The model returns \<open>None\<close> with that
  trader in these two cases.
\<close>

definition preflight ::
  "config \<Rightarrow> trade_env \<Rightarrow> opportunity \<Rightarrow> live_trader \<Rightarrow> quoted option \<times> live_trader" where
  "preflight cfg env opportunity t =
     (if lt_halted t then (None, t)
      else
        let tradeAmountUsd = calcTradeAmount cfg t opportunity
        in if tradeAmountUsd = 0 then (None, t)
           else
             let (solPrice, t1) = fetchSolPrice (env_now env) (env_solApi env) t
             in if \<not> assertGasReserve cfg (env_walletLamports env) tradeAmountUsd solPrice
                then (None, t1)
                else if solPrice = 0 then (None, t1)
                else
                  let buyLamports = usdToLamports tradeAmountUsd solPrice
                  in case env_buyQuote env of
                       None \<Rightarrow> (None, t1)
                     | Some tokensOut \<Rightarrow>
                        (case env_sellQuote env of
                           None \<Rightarrow> (None, t1)
                         | Some sellOut \<Rightarrow>
                             let realBuySol = ddiv (of_int buyLamports) LAMPORTS_PER_SOL;
                                 realSellSol = ddiv (of_nat sellOut) LAMPORTS_PER_SOL;
                                 realBuyUsd = dmul realBuySol solPrice;
                                 realSellUsd = dmul realSellSol solPrice;
                                 realProfit = dsub realSellUsd realBuyUsd;
                                 effectiveMinProfit =
                                   getEffectiveMinProfitPercent cfg t1 (opp_pair opportunity)
                             in if realProfit \<le> 0 then (None, t1)
                                else if realBuyUsd = 0 then (None, t1)
                                else
                                  let realProfitPct = dmul (ddiv realProfit realBuyUsd) 100
                                  in if realProfitPct < dmul effectiveMinProfit 100
                                     then (None, t1)
                                     else
                                       (case simulateSwap of
                                          Inl _ \<Rightarrow> (None, t1)
                                        | Inr buySimOk \<Rightarrow>
                                           (case simulateSwap of
                                              Inl _ \<Rightarrow> (None, t1)
                                            | Inr sellSimOk \<Rightarrow>
                                                if \<not> buySimOk \<or> \<not> sellSimOk then (None, t1)
                                                else (Some \<lparr>q_tradeAmountUsd = tradeAmountUsd,
                                                             q_realBuyUsd = realBuyUsd,
                                                             q_realSellUsd = realSellUsd,
                                                             q_realProfit = realProfit,
                                                             q_realProfitPct = realProfitPct\<rparr>,
                                                      t1)))))"

text \<open>
  The result of \<open>executeTrade\<close> is the returned trade (\<open>None\<close> for \<open>null\<close>), the trader after the
  call and the effects in the order of the calls.
\<close>

definition executeTrade ::
  "config \<Rightarrow> trade_env \<Rightarrow> opportunity \<Rightarrow> live_trader
   \<Rightarrow> trade option \<times> live_trader \<times> effect list" where
  "executeTrade cfg env opportunity t =
     (case preflight cfg env opportunity t of
        (None, t1) \<Rightarrow> (None, t1, [])
      | (Some q, t1) \<Rightarrow>
         (case submitLegs cfg env opportunity (q_tradeAmountUsd q) t1 of
            None \<Rightarrow> (None, t1, [])
          | Some (buyTxId, sellTxId, t2, alerts) \<Rightarrow>
              let (trade, t3, writes) = settle cfg env opportunity q buyTxId sellTxId t2
              in (Some trade, t3, alerts @ writes)))"

text \<open>
  \<open>init\<close>: seeds the balance from the wallet; on a failed wallet read the balance stays.
\<close>

definition init :: "config \<Rightarrow> int \<Rightarrow> rat option \<Rightarrow> int option \<Rightarrow> live_trader \<Rightarrow> live_trader" where
  "init cfg now api lamports t =
     (let (solPrice, t1) = fetchSolPrice now api t
      in case lamports of
           None \<Rightarrow> t1
         | Some l \<Rightarrow>
             let solAmount = ddiv (of_int l) LAMPORTS_PER_SOL;
                 tradeable = max 0 (dsub solAmount (cfg_solGasReserve cfg))
             in t1\<lparr>lt_balance := dmul tradeable solPrice\<rparr>)"

text \<open>
  \<open>_processAutoSell\<close>, its effect on the trader only (its notifications are left out): with a
  quote, outside dry-run, with the gas reserve in the wallet and a submitted swap, the
  failure counter of \<open>symbol/SOL\<close> is cleared.
\<close>

definition processAutoSell ::
  "config \<Rightarrow> int \<Rightarrow> nat option \<Rightarrow> rat option \<Rightarrow> int option \<Rightarrow> string option \<Rightarrow> string
   \<Rightarrow> live_trader \<Rightarrow> live_trader" where
  "processAutoSell cfg now sellQuote api lamports txId symbol t =
     (case sellQuote of
        None \<Rightarrow> t
      | Some _ \<Rightarrow>
          if lt_dryRun t then t
          else
            let (solPrice, t1) = fetchSolPrice now api t
            in case lamports of
                 None \<Rightarrow> t1
               | Some l \<Rightarrow>
                   if ddiv (of_int l) LAMPORTS_PER_SOL < cfg_solGasReserve cfg then t1
                   else if truthy txId \<and> failures_of t1 (symbol @ ''/SOL'') \<noteq> 0
                   then t1\<lparr>lt_sellFailureCounts :=
                             (lt_sellFailureCounts t1)(symbol @ ''/SOL'' \<mapsto> 0)\<rparr>
                   else t1)"

text \<open>The operations that change a \<open>LiveTrader\<close>, and a run of them.\<close>

datatype lt_op =
    ExecuteTrade trade_env opportunity
  | RecordLoss int rat
  | FetchSolPrice int "rat option"
  | Init int "rat option" "int option"
  | ProcessAutoSell int "nat option" "rat option" "int option" "string option" string

fun lt_step :: "config \<Rightarrow> live_trader \<Rightarrow> lt_op \<Rightarrow> live_trader" where
  "lt_step cfg t (ExecuteTrade env opportunity) = fst (snd (executeTrade cfg env opportunity t))"
| "lt_step cfg t (RecordLoss now amount) = recordLoss cfg now amount t"
| "lt_step cfg t (FetchSolPrice now api) = snd (fetchSolPrice now api t)"
| "lt_step cfg t (Init now api lamports) = init cfg now api lamports t"
| "lt_step cfg t (ProcessAutoSell now q api lamports txId symbol) =
     processAutoSell cfg now q api lamports txId symbol t"

definition lt_run :: "config \<Rightarrow> live_trader \<Rightarrow> lt_op list \<Rightarrow> live_trader" where
  "lt_run cfg t ops = foldl (lt_step cfg) t ops"

section \<open>Notions used to state the properties of \<open>LiveTrader\<close>\<close>

text \<open>A run of \<open>_recordLoss\<close> calls, each with its clock reading and its amount.\<close>

definition recordLosses :: "config \<Rightarrow> live_trader \<Rightarrow> (int \<times> rat) list \<Rightarrow> live_trader" where
  "recordLosses cfg t losses = foldl (\<lambda>t l. recordLoss cfg (fst l) (snd l) t) t losses"

text \<open>
  The tally of the day of a run of losses, as \<open>_dailyLoss += amount\<close> accumulates it in
  double precision: it starts from 0 when the first loss of the run is recorded at or after
  the trader's reset time (a new day has begun), and from the tally the trader has
  otherwise.
\<close>

definition dayTally :: "live_trader \<Rightarrow> (int \<times> rat) list \<Rightarrow> rat" where
  "dayTally t losses =
     foldl dadd
       (if losses \<noteq> [] \<and> lt_dailyLossReset t \<le> fst (hd losses) then 0 else lt_dailyLoss t)
       (map snd losses)"

text \<open>The parts of what a call of \<open>executeTrade\<close> yields.\<close>

definition returned :: "trade option \<times> live_trader \<times> effect list \<Rightarrow> trade option" where
  "returned r = fst r"

definition trader_after :: "trade option \<times> live_trader \<times> effect list \<Rightarrow> live_trader" where
  "trader_after r = fst (snd r)"

definition effects_of :: "trade option \<times> live_trader \<times> effect list \<Rightarrow> effect list" where
  "effects_of r = snd (snd r)"

text \<open>
  A concrete configuration (the defaults of \<open>config.js\<close> with \<open>DRY_RUN=false\<close>), an
  opportunity, and a fresh trader. In the environment \<open>env_example\<close> every check of
  \<open>executeTrade\<close> before the simulations passes (SOL at 100 USD, one SOL in the wallet,
  quotes with a profit of 3 %), and \<open>_submitSwap\<close> would confirm the buy leg; \<open>sell_never\<close> and
  \<open>sell_at_once\<close> are what it would return for the sell attempts. They serve as the inputs
  of the evaluated examples.
\<close>

definition cfg_example :: config where
  "cfg_example =
     \<lparr>cfg_discoverySlippage = None, cfg_slippageTolerance = 4 / 100,
      cfg_minProfitPercent = 167 / 10000, cfg_minProfitAbsolute = 17 / 100,
      cfg_maxTradeAmountUsd = 10, cfg_maxDailyLossUsd = 2, cfg_sellRetryCount = 3,
      cfg_solGasReserve = 1 / 100, cfg_startingCapital = 20, cfg_dryRun = False,
      cfg_discordWebhook = [], cfg_discordWebhookUrl = None\<rparr>"

text \<open>The same configuration with its decimal values as the doubles \<open>parseFloat\<close> yields.\<close>

definition cfg_live :: config where
  "cfg_live =
     cfg_example\<lparr>cfg_slippageTolerance := round_double (4 / 100),
                 cfg_minProfitPercent := round_double (167 / 10000),
                 cfg_minProfitAbsolute := round_double (17 / 100),
                 cfg_solGasReserve := round_double (1 / 100)\<rparr>"

definition opp_example :: opportunity where
  "opp_example =
     \<lparr>opp_buyExchange = ''Raydium'', opp_sellExchange = ''Orca'', opp_buyPrice = 100,
      opp_sellPrice = 105, opp_profitPercent = 5, opp_timestamp = 1000,
      opp_pair = ''RAY/SOL''\<rparr>"

definition env_example :: "int \<Rightarrow> (nat \<Rightarrow> string option) \<Rightarrow> trade_env" where
  "env_example now sub =
     \<lparr>env_now = now, env_solApi = Some 100, env_walletLamports = Some 1000000000,
      env_buyQuote = Some 5000, env_sellQuote = Some 103000000,
      env_buySubmit = Some ''B1'', env_sellSubmit = sub,
      env_alertThresh = 0, env_balanceRecord = None\<rparr>"

definition sell_never :: "nat \<Rightarrow> string option" where
  "sell_never k = None"

definition sell_at_once :: "nat \<Rightarrow> string option" where
  "sell_at_once k = Some ''S1''"

definition trader_example :: live_trader where
  "trader_example = new_LiveTrader cfg_live 0"

text \<open>The example trader after \<open>_fetchSolPrice\<close> at clock reading 1000.\<close>

definition trader_example_priced :: live_trader where
  "trader_example_priced = trader_example\<lparr>lt_solPriceUsd := Some 100, lt_solPriceTs := 1000\<rparr>"

text \<open>
  The example trader after a loss of the whole daily limit on its first day, and after a
  further loss recorded one millisecond past the next UTC midnight.
\<close>

definition trader_halted_day0 :: live_trader where
  "trader_halted_day0 = recordLoss cfg_live 1000 2 trader_example"

definition trader_next_day :: live_trader where
  "trader_next_day = recordLoss cfg_live 86400001 (1 / 2) trader_halted_day0"

text \<open>
  The example trader after a loss of 1 USD on its first day, and two losses of the
  following day, 0.5 and 1.5 USD.
\<close>

definition trader_day0_loss :: live_trader where
  "trader_day0_loss = recordLoss cfg_live 1000 1 trader_example"

definition losses_example :: "(int \<times> rat) list" where
  "losses_example = [(86400001, 1 / 2), (86400002, 3 / 2)]"

text \<open>
  Four losses of one day, the doubles written \<open>0.7000000000000001\<close>, \<open>0.5999999999999999\<close>,
  \<open>0.3499999999999999\<close> and \<open>0.35000000000000014\<close> in JavaScript.
\<close>

definition losses_rounding :: "(int \<times> rat) list" where
  "losses_rounding =
     [(1000, 6305039478318695 / 9007199254740992),
      (2000, 2702159776422297 / 4503599627370496),
      (3000, 6305039478318693 / 18014398509481984),
      (4000, 6305039478318697 / 18014398509481984)]"

text \<open>
  Three calls of \<open>executeTrade\<close> on one pair, in an environment in which the buy leg would
  be confirmed and every sell attempt would fail, and the example trader after them.
\<close>

definition calls_example :: "lt_op list" where
  "calls_example =
     [ExecuteTrade (env_example 1000 sell_never) opp_example,
      ExecuteTrade (env_example 2000 sell_never) opp_example,
      ExecuteTrade (env_example 3000 sell_never) opp_example]"

definition trader_after_streak :: live_trader where
  "trader_after_streak = lt_run cfg_live trader_example calls_example"

section \<open>arbitrage.js: \<open>ArbitrageDetector\<close>\<close>

text \<open>
  A price point, with the fields the detector reads (\<open>priceImpactPct\<close> of the Jupiter
  points and \<open>pairAddress\<close> of the DexScreener points are carried by the source and read
  by none of the functions modelled here).
\<close>

record price_point =
  pp_exchange :: string
  pp_price :: rat
  pp_timestamp :: int
  pp_liquidity :: rat
  pp_volume24h :: rat

subsection \<open>\<open>findArbitrageOpportunities\<close>\<close>

text \<open>
  The two slippage factors. In the source they are
  \<open>(1 + config.discoverySlippage || config.slippageTolerance)\<close> and
  \<open>(1 - config.discoverySlippage || config.slippageTolerance)\<close>. In JavaScript \<open>+\<close> and \<open>-\<close>
  bind tighter than \<open>||\<close>: the factor is \<open>1 + discoverySlippage\<close> when that number is truthy
  (neither 0 nor \<open>NaN\<close>) and \<open>slippageTolerance\<close> otherwise. With \<open>discoverySlippage\<close>
  undefined the sum is \<open>NaN\<close>.
\<close>

definition buyFactor :: "config \<Rightarrow> rat" where
  "buyFactor cfg =
     (case cfg_discoverySlippage cfg of
        None \<Rightarrow> cfg_slippageTolerance cfg
      | Some d \<Rightarrow> if 1 + d \<noteq> 0 then 1 + d else cfg_slippageTolerance cfg)"

definition sellFactor :: "config \<Rightarrow> rat" where
  "sellFactor cfg =
     (case cfg_discoverySlippage cfg of
        None \<Rightarrow> cfg_slippageTolerance cfg
      | Some d \<Rightarrow> if 1 - d \<noteq> 0 then 1 - d else cfg_slippageTolerance cfg)"

text \<open>The loop variables that outlive an iteration.\<close>

record scan_state =
  ss_opportunities :: "opp list"
  ss_bestSpread :: rat
  ss_bestPair :: string

definition scan_init :: scan_state where
  "scan_init = \<lparr>ss_opportunities = [], ss_bestSpread = 0, ss_bestPair = []\<rparr>"

text \<open>
  One iteration of the inner loop, at the clock reading \<open>now\<close> of that iteration. The arrow
  of \<open>bestPair\<close> is written \<open>->\<close>.
\<close>

definition pairStep ::
  "config \<Rightarrow> int \<Rightarrow> price_point \<Rightarrow> price_point \<Rightarrow> scan_state \<Rightarrow> error + scan_state" where
  "pairStep cfg now price1 price2 st =
     (if now - pp_timestamp price1 > 10000 \<or> now - pp_timestamp price2 > 10000 then Inr st
      else if pp_exchange price1 = pp_exchange price2 then Inr st
      else
        let buyPrice = min (pp_price price1) (pp_price price2);
            sellPrice = max (pp_price price1) (pp_price price2);
            buyExchange = (if pp_price price1 < pp_price price2
                           then pp_exchange price1 else pp_exchange price2);
            sellExchange = (if pp_price price1 < pp_price price2
                            then pp_exchange price2 else pp_exchange price1)
        in if buyPrice = 0 then Inl NonFinite
           else
             let rawSpread = ((sellPrice - buyPrice) / buyPrice) * 100;
                 st1 = (if rawSpread > ss_bestSpread st
                        then st\<lparr>ss_bestSpread := rawSpread,
                                ss_bestPair := buyExchange @ ''->'' @ sellExchange\<rparr>
                        else st);
                 buyPriceWithSlippage = buyPrice * buyFactor cfg;
                 sellPriceWithSlippage = sellPrice * sellFactor cfg
             in if buyPriceWithSlippage = 0 then Inl NonFinite
                else
                  let profitPercent =
                        ((sellPriceWithSlippage - buyPriceWithSlippage) / buyPriceWithSlippage) * 100
                  in if profitPercent \<ge> cfg_minProfitPercent cfg * 100
                     then Inr (st1\<lparr>ss_opportunities := ss_opportunities st1 @
                                 [\<lparr>opp_buyExchange = buyExchange,
                                   opp_sellExchange = sellExchange,
                                   opp_buyPrice = buyPriceWithSlippage,
                                   opp_sellPrice = sellPriceWithSlippage,
                                   opp_profitPercent = profitPercent,
                                   opp_timestamp = now\<rparr>]\<rparr>)
                     else Inr st1)"

text \<open>The pairs \<open>(prices[i], prices[j])\<close>, \<open>i < j\<close>, in the order of the two nested loops.\<close>

fun pairs_of :: "'a list \<Rightarrow> ('a \<times> 'a) list" where
  "pairs_of [] = []"
| "pairs_of (x # xs) = map (Pair x) xs @ pairs_of xs"

text \<open>
  The two loops. \<open>Date.now()\<close> is read once in every inner iteration: \<open>clock k\<close> is the reading
  of iteration \<open>k\<close> (counted from 0 over the whole call).
\<close>

fun scanPairs ::
  "config \<Rightarrow> (nat \<Rightarrow> int) \<Rightarrow> nat \<Rightarrow> (price_point \<times> price_point) list \<Rightarrow> scan_state
   \<Rightarrow> error + scan_state" where
  "scanPairs cfg clock k [] st = Inr st"
| "scanPairs cfg clock k (pr # rest) st =
     (case pairStep cfg (clock k) (fst pr) (snd pr) st of
        Inl e \<Rightarrow> Inl e
      | Inr st' \<Rightarrow> scanPairs cfg clock (Suc k) rest st')"

text \<open>The line written with \<open>console.log\<close>: symbol, best spread, best pair, tag, threshold.\<close>

datatype tag = TagMet | TagYellow | TagRed

datatype console = LogBestSpread string rat string tag rat

text \<open>\<open>config.discordWebhook || config.discordWebhookUrl\<close> is truthy.\<close>

definition webhookSet :: "config \<Rightarrow> bool" where
  "webhookSet cfg \<longleftrightarrow> cfg_discordWebhook cfg \<noteq> [] \<or> truthy (cfg_discordWebhookUrl cfg)"

text \<open>
  \<open>findArbitrageOpportunities\<close>: the console output and then either the returned list or
  the exception that leaves the function. In the near-miss branch with a webhook set, the
  template literal of the payload reads \<open>buyPrice\<close> and \<open>sellPrice\<close>, which are \<open>const\<close>
  declarations of the inner loop's block and not in scope there: evaluating it throws a
  \<open>ReferenceError\<close> before \<open>axios.post\<close> is reached.
\<close>

definition findArbitrageOpportunities ::
  "config \<Rightarrow> (nat \<Rightarrow> int) \<Rightarrow> price_point list \<Rightarrow> string \<Rightarrow> console list \<times> (error + opp list)" where
  "findArbitrageOpportunities cfg clock prices tokenSymbol =
     (let minThreshold = cfg_minProfitPercent cfg * 100
      in case scanPairs cfg clock 0 (pairs_of prices) scan_init of
           Inl e \<Rightarrow> ([], Inl e)
         | Inr st \<Rightarrow>
             if ss_bestPair st \<noteq> [] then
               let tag = (if ss_bestSpread st \<ge> minThreshold then TagMet
                          else if ss_bestSpread st > 1 / 10 then TagYellow else TagRed);
                   line = [LogBestSpread tokenSymbol (ss_bestSpread st) (ss_bestPair st) tag
                             minThreshold]
               in if ss_bestSpread st < minThreshold \<and> ss_bestSpread st \<ge> minThreshold - 2 / 10
                  then (if webhookSet cfg then (line, Inl ReferenceError)
                        else (line, Inr (ss_opportunities st)))
                  else (line, Inr (ss_opportunities st))
             else ([], Inr (ss_opportunities st)))"

subsection \<open>\<open>fetchAllPrices\<close> and its primary source (jupiter-dex-quotes.js)\<close>

definition PROBE_LAMPORTS :: rat where
  "PROBE_LAMPORTS = 50000000"

definition TARGET_DEXES :: "string list" where
  "TARGET_DEXES = [''Raydium'', ''Orca'', ''Meteora'']"

text \<open>
  \<open>_quoteDex\<close>: \<open>resp\<close> is the parsed \<open>outAmount\<close> of the direct-route quote, \<open>None\<close> when the
  request fails or the response has no \<open>outAmount\<close> or no route plan.
\<close>

definition quoteDex :: "string \<Rightarrow> int \<Rightarrow> nat option \<Rightarrow> price_point option" where
  "quoteDex dexName now resp =
     (case resp of
        None \<Rightarrow> None
      | Some tokensOut \<Rightarrow>
          if tokensOut = 0 then None
          else Some \<lparr>pp_exchange = dexName, pp_price = PROBE_LAMPORTS / of_nat tokensOut,
                     pp_timestamp = now, pp_liquidity = 999999, pp_volume24h = 999999\<rparr>)"

text \<open>
  \<open>JupiterDexQuotes.getPrices\<close>, with its cache (token symbol to time stamp and prices).
  \<open>mint\<close> is the result of \<open>getTokenMint\<close>; \<open>resp dex\<close> is the response for each target DEX;
  one clock reading \<open>now\<close> stands for the readings of one call.
\<close>

type_synonym jup_cache = "string \<rightharpoonup> int \<times> price_point list"

definition quoteAll :: "int \<Rightarrow> (string \<Rightarrow> nat option) \<Rightarrow> price_point list" where
  "quoteAll now resp = List.map_filter (\<lambda>dex. quoteDex dex now (resp dex)) TARGET_DEXES"

definition getPrices ::
  "string option \<Rightarrow> int \<Rightarrow> (string \<Rightarrow> nat option) \<Rightarrow> string \<Rightarrow> jup_cache
   \<Rightarrow> price_point list \<times> jup_cache" where
  "getPrices mint now resp tokenSymbol cache =
     (if \<not> truthy mint then ([], cache)
      else
        let fresh = (quoteAll now resp, cache(tokenSymbol \<mapsto> (now, quoteAll now resp)))
        in case cache tokenSymbol of
             None \<Rightarrow> fresh
           | Some cached \<Rightarrow> if now - fst cached < 2000 then (snd cached, cache) else fresh)"

text \<open>
  The body of \<open>fetchAllPrices\<close> after the primary call: \<open>jup\<close> is its result (\<open>None\<close> when the
  call throws, the \<open>catch\<close> falls through), \<open>dexPrices\<close> is \<open>Object.values\<close> of what
  \<open>dexScreener.getPrice\<close> returns (\<open>None\<close> for \<open>null\<close>).
\<close>

definition fallbackPrices :: "price_point list option \<Rightarrow> price_point list" where
  "fallbackPrices dexPrices =
     (case dexPrices of
        None \<Rightarrow> []
      | Some values \<Rightarrow>
          filter (\<lambda>priceData. pp_liquidity priceData > 10000 \<and> pp_volume24h priceData > 500)
            values)"

definition fetchAllPrices_from ::
  "price_point list option \<Rightarrow> price_point list option \<Rightarrow> price_point list" where
  "fetchAllPrices_from jup dexPrices =
     (case jup of
        Some jupPrices \<Rightarrow>
          if length jupPrices \<ge> 2 then jupPrices else fallbackPrices dexPrices
      | None \<Rightarrow> fallbackPrices dexPrices)"

text \<open>\<open>fetchAllPrices\<close> on top of \<open>JupiterDexQuotes.getPrices\<close>, which does not throw.\<close>

definition fetchAllPrices ::
  "string option \<Rightarrow> int \<Rightarrow> (string \<Rightarrow> nat option) \<Rightarrow> price_point list option \<Rightarrow> string
   \<Rightarrow> jup_cache \<Rightarrow> price_point list \<times> jup_cache" where
  "fetchAllPrices mint now resp dexPrices tokenSymbol cache =
     (let (jupPrices, cache') = getPrices mint now resp tokenSymbol cache
      in (fetchAllPrices_from (Some jupPrices) dexPrices, cache'))"

text \<open>
  The invariant of the cache: every cached list has one point per venue. It holds of the
  empty cache and \<open>getPrices\<close> keeps it.
\<close>

definition cache_ok :: "jup_cache \<Rightarrow> bool" where
  "cache_ok cache \<longleftrightarrow> (\<forall>e\<in>ran cache. distinct (map pp_exchange (snd e)))"

text \<open>Inputs of the evaluated examples of the detector.\<close>

definition point :: "string \<Rightarrow> rat \<Rightarrow> int \<Rightarrow> price_point" where
  "point venue price ts =
     \<lparr>pp_exchange = venue, pp_price = price, pp_timestamp = ts,
      pp_liquidity = 50000, pp_volume24h = 10000\<rparr>"

definition cfg_slip :: "rat \<Rightarrow> config" where
  "cfg_slip s = cfg_example\<lparr>cfg_slippageTolerance := s, cfg_minProfitPercent := 5 / 1000\<rparr>"

definition at_1000 :: "nat \<Rightarrow> int" where
  "at_1000 k = 1000"

text \<open>
  A pair the scan takes a positive raw spread from: both points fresh at the reading \<open>now\<close>,
  distinct venues, distinct prices, the lower one positive.
\<close>

definition spreadSeen :: "int \<Rightarrow> price_point \<Rightarrow> price_point \<Rightarrow> bool" where
  "spreadSeen now price1 price2 \<longleftrightarrow>
     \<not> (now - pp_timestamp price1 > 10000 \<or> now - pp_timestamp price2 > 10000)
     \<and> pp_exchange price1 \<noteq> pp_exchange price2
     \<and> pp_price price1 \<noteq> pp_price price2
     \<and> 0 < min (pp_price price1) (pp_price price2)"

definition resp_raydium_only :: "string \<Rightarrow> nat option" where
  "resp_raydium_only dex = (if dex = ''Raydium'' then Some 1000 else None)"

definition resp_two_venues :: "string \<Rightarrow> nat option" where
  "resp_two_venues dex = (if dex = ''Meteora'' then None else Some 1000)"

definition pools_example :: "price_point list" where
  "pools_example =
     [\<lparr>pp_exchange = ''Raydium'', pp_price = 2, pp_timestamp = 900,
       pp_liquidity = 50000, pp_volume24h = 10000\<rparr>,
      \<lparr>pp_exchange = ''Orca'', pp_price = 3, pp_timestamp = 900,
       pp_liquidity = 9000, pp_volume24h = 10000\<rparr>,
      \<lparr>pp_exchange = ''Orca'', pp_price = 3, pp_timestamp = 900,
       pp_liquidity = 10000, pp_volume24h = 501\<rparr>]"

text \<open>The scan keeps: the best pair is empty exactly while the best spread is still 0.\<close>

definition scan_inv :: "scan_state \<Rightarrow> bool" where
  "scan_inv st \<longleftrightarrow> 0 \<le> ss_bestSpread st \<and> (ss_bestPair st = [] \<longleftrightarrow> ss_bestSpread st = 0)"

section \<open>Theorems\<close>

text \<open>
  C1, push half (auxiliary): while the scanning flag is set, a swap event changes nothing,
  so it starts no invocation.
\<close>

lemma onSwapEvent_dropped_while_scanning:
  "bot_scanning b \<Longrightarrow> onSwapEvent b = b"
  by (simp add: onSwapEvent_def)

text \<open>
  C1: the claim says that no trigger, push or fallback, starts a second \<open>scanAndTrade\<close>
  while one is in flight. On the code the fallback half fails: after \<open>start\<close> the boot scan
  is in flight with the flag set and the fallback timer pending; when the timer fires
  before that scan returns, a second invocation starts and two are in flight.
\<close>

theorem fallback_starts_concurrent_scan:
  "bot_scanning (run [Start]) \<and> bot_inflight (run [Start]) = [Boot]
   \<and> bot_inflight (run [Start, FallbackTimer]) = [Boot, Fallback]"
  by (simp add: run_def start_def fallbackFires_def scanAndTrade_begin_def
      resetFallbackTimer_def bot_init_def)

text \<open>
  A further consequence of the same run: when the second invocation returns it clears the
  flag while the boot scan is still in flight, and the push trigger, which only reads the
  flag, then starts a scan beside it.
\<close>

lemma push_starts_scan_after_flag_cleared:
  "\<not> bot_scanning (run [Start, FallbackTimer, ScanReturns 1])
   \<and> bot_inflight (run [Start, FallbackTimer, ScanReturns 1]) = [Boot]
   \<and> bot_inflight (run [Start, FallbackTimer, ScanReturns 1, SwapEvent]) = [Boot, Push]"
  by (simp add: run_def start_def fallbackFires_def scanAndTrade_begin_def scanReturns_def
      onSwapEvent_def resetFallbackTimer_def bot_init_def Let_def)

subsection \<open>The rounding of doubles\<close>

text \<open>
  \<open>exponent\<close> brackets a positive number between two powers of 2, and \<open>round_double\<close> moves
  a number by at most half a unit in the last place (to a multiple of that unit, by its
  definition).
\<close>

lemma bit_length_bounds:
  "0 < n \<Longrightarrow> 0 < bit_length n \<and> 2 ^ nat (bit_length n - 1) \<le> n \<and> n < 2 ^ nat (bit_length n)"
proof (induction n rule: bit_length.induct)
  case (1 n)
  from "1.prems" have unfold: "bit_length n = 1 + bit_length (n div 2)"
    by (subst bit_length.simps) simp
  show ?case
  proof (cases "n div 2 = 0")
    case True
    then have "bit_length (n div 2) = 0"
      by (subst bit_length.simps) simp
    moreover from True "1.prems" have "n = 1" by presburger
    ultimately show ?thesis using unfold by simp
  next
    case False
    with "1.prems" have pos: "0 < n div 2" by presburger
    from "1.IH" "1.prems" pos
    have ih: "0 < bit_length (n div 2)"
      "2 ^ nat (bit_length (n div 2) - 1) \<le> n div 2"
      "n div 2 < 2 ^ nat (bit_length (n div 2))"
      by simp_all
    define k where "k = nat (bit_length (n div 2) - 1)"
    have k: "nat (bit_length (n div 2)) = Suc k" "nat (bit_length n - 1) = Suc k"
      "nat (bit_length n) = Suc (Suc k)"
      using ih(1) unfold by (simp_all add: k_def nat_add_distrib)
    from ih(2,3) have "2 ^ k \<le> n div 2" "n div 2 < 2 ^ Suc k"
      by (simp_all add: k k_def)
    then have "2 ^ Suc k \<le> n" "n < 2 ^ Suc (Suc k)"
      by simp_all
    then have "2 ^ nat (bit_length n - 1) \<le> n" "n < 2 ^ nat (bit_length n)"
      unfolding k by simp_all
    moreover have "0 < bit_length n"
      using ih(1) unfold by simp
    ultimately show ?thesis by blast
  qed
qed

lemma pow2_pos: "0 < pow2 e"
  by (simp add: pow2_def)

lemma pow2_Suc: "pow2 (e + 1) = 2 * pow2 e"
proof (cases "0 \<le> e")
  case True
  then show ?thesis by (simp add: pow2_def nat_add_distrib)
next
  case False
  then have "nat (- e) = Suc (nat (- (e + 1)))" by simp
  with False show ?thesis by (simp add: pow2_def)
qed

lemma round_half_even_near: "\<bar>of_int (round_half_even q) - q\<bar> \<le> 1 / 2"
proof -
  define f where "f = q - of_int \<lfloor>q\<rfloor>"
  have f: "0 \<le> f" "f < 1"
    unfolding f_def by linarith+
  have r: "round_half_even q
           = (if f < 1 / 2 then \<lfloor>q\<rfloor>
              else if 1 / 2 < f then \<lfloor>q\<rfloor> + 1
              else if even \<lfloor>q\<rfloor> then \<lfloor>q\<rfloor> else \<lfloor>q\<rfloor> + 1)"
    by (simp add: round_half_even_def Let_def f_def)
  have down: "of_int \<lfloor>q\<rfloor> - q = - f"
    and up: "of_int (\<lfloor>q\<rfloor> + 1) - q = 1 - f"
    by (simp_all add: f_def)
  show ?thesis
  proof (cases "f < 1 / 2")
    case True
    with r have "of_int (round_half_even q) - q = - f"
      by (simp only: if_True down)
    with True f show ?thesis by simp
  next
    case False
    show ?thesis
    proof (cases "1 / 2 < f")
      case True
      with r False have "of_int (round_half_even q) - q = 1 - f"
        by (simp only: if_True if_False up)
      with True f show ?thesis by simp
    next
      case half: False
      with False have "f = 1 / 2" by simp
      moreover from r False half
      have "of_int (round_half_even q) - q = - f \<or> of_int (round_half_even q) - q = 1 - f"
        using down up by (cases "even \<lfloor>q\<rfloor>") simp_all
      ultimately show ?thesis by auto
    qed
  qed
qed

lemma pow2_neg: "pow2 (- int k) = 1 / 2 ^ k"
  by (cases k) (simp_all add: pow2_def nat_add_distrib)

lemma nat_pred: "0 < (b::int) \<Longrightarrow> nat b = Suc (nat (b - 1))"
  by simp

lemma exponent_bounds:
  assumes "0 < a"
  shows "pow2 (exponent a) \<le> a \<and> a < pow2 (exponent a + 1)"
proof (cases "1 \<le> a")
  case True
  then have n: "0 < \<lfloor>a\<rfloor>" by simp
  define k where "k = nat (bit_length \<lfloor>a\<rfloor> - 1)"
  note bl = bit_length_bounds [OF n]
  from bl have b1: "0 < bit_length \<lfloor>a\<rfloor>" by simp
  from bl have b2: "2 ^ k \<le> \<lfloor>a\<rfloor>" by (simp add: k_def)
  from bl have b3: "\<lfloor>a\<rfloor> < 2 ^ Suc k"
    unfolding k_def nat_pred [OF b1, symmetric] by simp
  have e: "exponent a = int k"
    using True b1 by (simp add: exponent_def k_def)
  have "(2::rat) ^ k = of_int (2 ^ k)" by simp
  also have "\<dots> \<le> of_int \<lfloor>a\<rfloor>" using b2 by (simp only: of_int_le_iff)
  also have "\<dots> \<le> a" by simp
  finally have lo: "2 ^ k \<le> a" .
  from b3 have "\<lfloor>a\<rfloor> + 1 \<le> 2 ^ Suc k" by simp
  then have "of_int (\<lfloor>a\<rfloor> + 1) \<le> (of_int (2 ^ Suc k) :: rat)" by (simp only: of_int_le_iff)
  moreover have "a < of_int (\<lfloor>a\<rfloor> + 1)" by linarith
  ultimately have hi: "a < 2 ^ Suc k" by simp
  from lo hi show ?thesis
    by (simp add: e pow2_def nat_add_distrib)
next
  case False
  with assms have gt: "1 < 1 / a" by simp
  define m where "m = \<lceil>1 / a\<rceil>"
  have m: "1 / a \<le> of_int m" "of_int m - 1 < 1 / a"
    unfolding m_def by linarith+
  with gt have m1: "0 < m - 1" by linarith
  define k where "k = nat (bit_length (m - 1) - 1)"
  note bl = bit_length_bounds [OF m1]
  from bl have b1: "0 < bit_length (m - 1)" by simp
  from bl have b2: "2 ^ k \<le> m - 1" by (simp add: k_def)
  from bl have b3: "m - 1 < 2 ^ Suc k"
    unfolding k_def nat_pred [OF b1, symmetric] by simp
  have e: "exponent a = - int (Suc k)"
    using False b1 by (simp add: exponent_def k_def m_def)
  from b3 have "m \<le> 2 ^ Suc k" by simp
  then have "of_int m \<le> (of_int (2 ^ Suc k) :: rat)" by (simp only: of_int_le_iff)
  with m(1) have "1 / a \<le> 2 ^ Suc k" by simp
  with assms have lo: "1 / 2 ^ Suc k \<le> a"
    by (simp add: field_simps)
  from b2 have "(of_int (2 ^ k) :: rat) \<le> of_int (m - 1)" by (simp only: of_int_le_iff)
  with m(2) have "2 ^ k < 1 / a" by simp
  with assms have hi: "a < 1 / 2 ^ k"
    by (simp add: field_simps)
  have "exponent a + 1 = - int k"
    by (simp add: e)
  with lo hi show ?thesis
    by (simp only: e pow2_neg)
qed

text \<open>The rounding error is at most half a unit in the last place.\<close>

lemma round_double_near:
  assumes "x \<noteq> 0"
  shows "\<bar>round_double x - x\<bar> \<le> pow2 (exponent \<bar>x\<bar> - 52) / 2"
proof -
  define u where "u = pow2 (exponent \<bar>x\<bar> - 52)"
  have u: "0 < u" by (simp add: u_def pow2_pos)
  define n where "n = round_half_even (\<bar>x\<bar> / u)"
  have "\<bar>of_int n - \<bar>x\<bar> / u\<bar> \<le> 1 / 2"
    unfolding n_def by (rule round_half_even_near)
  then have "\<bar>of_int n - \<bar>x\<bar> / u\<bar> * u \<le> 1 / 2 * u"
    using u by (simp only: mult_le_cancel_right_pos)
  moreover have "\<bar>of_int n - \<bar>x\<bar> / u\<bar> * u = \<bar>(of_int n - \<bar>x\<bar> / u) * u\<bar>"
    using u by (simp add: abs_mult)
  moreover have "(of_int n - \<bar>x\<bar> / u) * u = of_int n * u - \<bar>x\<bar>"
    using u by (simp add: left_diff_distrib)
  ultimately have near: "\<bar>of_int n * u - \<bar>x\<bar>\<bar> \<le> u / 2" by simp
  have "round_double x = (if x < 0 then - (of_int n * u) else of_int n * u)"
    using assms by (simp add: round_double_def Let_def n_def u_def)
  with near show ?thesis
    unfolding u_def [symmetric] by (auto simp: abs_if split: if_splits)
qed

subsection \<open>Auxiliary facts about \<open>LiveTrader\<close>\<close>

lemma fetchSolPrice_keeps:
  "lt_halted (snd (fetchSolPrice now api t)) = lt_halted t"
  "lt_sellFailureCounts (snd (fetchSolPrice now api t)) = lt_sellFailureCounts t"
  "lt_failureThreshold (snd (fetchSolPrice now api t)) = lt_failureThreshold t"
  "lt_raisedMinProfitPct (snd (fetchSolPrice now api t)) = lt_raisedMinProfitPct t"
  "lt_dryRun (snd (fetchSolPrice now api t)) = lt_dryRun t"
  "lt_balance (snd (fetchSolPrice now api t)) = lt_balance t"
  "lt_dailyLoss (snd (fetchSolPrice now api t)) = lt_dailyLoss t"
  "lt_dailyLossReset (snd (fetchSolPrice now api t)) = lt_dailyLossReset t"
  by (simp_all add: fetchSolPrice_def Let_def split: option.splits)

lemma failures_of_fetchSolPrice:
  "failures_of (snd (fetchSolPrice now api t)) p = failures_of t p"
  by (simp add: failures_of_def fetchSolPrice_keeps)

text \<open>
  The first simulation throws: \<open>preflight\<close> never yields amounts, and \<open>executeTrade\<close> returns
  \<open>null\<close> on every input. It submits nothing, sends nothing and writes nothing to the
  ledger; all it can change is the price cache.
\<close>

lemma preflight_None: "fst (preflight cfg env opportunity t) = None"
  by (simp add: preflight_def simulateSwap_def Let_def split: option.splits prod.splits)

lemma preflight_trader:
  "snd (preflight cfg env opportunity t)
   = (if lt_halted t \<or> calcTradeAmount cfg t opportunity = 0 then t
      else snd (fetchSolPrice (env_now env) (env_solApi env) t))"
  by (simp add: preflight_def simulateSwap_def Let_def split: option.splits prod.splits)

lemma executeTrade_returns_null:
  "executeTrade cfg env opportunity t
   = (None,
      if lt_halted t \<or> calcTradeAmount cfg t opportunity = 0 then t
      else snd (fetchSolPrice (env_now env) (env_solApi env) t),
      [])"
proof -
  obtain r t1 where pre: "preflight cfg env opportunity t = (r, t1)"
    by (cases "preflight cfg env opportunity t")
  from preflight_None [of cfg env opportunity t] pre have r: "r = None" by simp
  from preflight_trader [of cfg env opportunity t] pre
  have t1: "t1 = (if lt_halted t \<or> calcTradeAmount cfg t opportunity = 0 then t
                  else snd (fetchSolPrice (env_now env) (env_solApi env) t))"
    by simp
  show ?thesis
    by (simp add: executeTrade_def pre r t1 [symmetric])
qed

lemma executeTrade_halted:
  "lt_halted t \<Longrightarrow> executeTrade cfg env opportunity t = (None, t, [])"
  by (simp add: executeTrade_returns_null)

lemma executeTrade_keeps:
  "lt_halted (fst (snd (executeTrade cfg env opportunity t))) = lt_halted t"
  "lt_sellFailureCounts (fst (snd (executeTrade cfg env opportunity t))) = lt_sellFailureCounts t"
  "lt_balance (fst (snd (executeTrade cfg env opportunity t))) = lt_balance t"
  "lt_dailyLoss (fst (snd (executeTrade cfg env opportunity t))) = lt_dailyLoss t"
  "lt_failureThreshold (fst (snd (executeTrade cfg env opportunity t))) = lt_failureThreshold t"
  by (simp_all add: executeTrade_returns_null fetchSolPrice_keeps)

lemma recordLoss_halted: "lt_halted t \<Longrightarrow> lt_halted (recordLoss cfg now a t)"
  by (simp add: recordLoss_def Let_def)

lemma init_halted: "lt_halted (init cfg now api l t) = lt_halted t"
  using fetchSolPrice_keeps(1) [of now api t]
  by (auto simp: init_def Let_def split: prod.splits option.splits)

lemma processAutoSell_halted:
  "lt_halted (processAutoSell cfg now q api l tx symb t) = lt_halted t"
  using fetchSolPrice_keeps(1) [of now api t]
  by (auto simp: processAutoSell_def Let_def split: prod.splits option.splits)

lemma halted_step: "lt_halted t \<Longrightarrow> lt_halted (lt_step cfg t op)"
  by (cases op)
     (simp_all add: executeTrade_keeps recordLoss_halted fetchSolPrice_keeps init_halted
        processAutoSell_halted)

lemma halted_run: "lt_halted t \<Longrightarrow> lt_halted (lt_run cfg t ops)"
  unfolding lt_run_def
  by (induction ops arbitrary: t) (simp_all add: halted_step)

text \<open>
  No run of the engine counts a sell failure: the only increment of a counter is in the
  code after the simulations.
\<close>

lemma init_counts: "lt_sellFailureCounts (init cfg now api l t) = lt_sellFailureCounts t"
  using fetchSolPrice_keeps(2) [of now api t]
  by (auto simp: init_def Let_def split: prod.splits option.splits)

lemma processAutoSell_counts:
  assumes "\<forall>p. failures_of t p = 0"
  shows "lt_sellFailureCounts (processAutoSell cfg now q api l tx symb t) = lt_sellFailureCounts t"
  using assms fetchSolPrice_keeps(2) [of now api t] failures_of_fetchSolPrice [of now api t]
  by (auto simp: processAutoSell_def Let_def split: prod.splits option.splits)

lemma counts_step:
  assumes "\<forall>p. failures_of t p = 0"
  shows "lt_sellFailureCounts (lt_step cfg t op) = lt_sellFailureCounts t"
  using assms
  by (cases op)
     (simp_all add: executeTrade_keeps recordLoss_def Let_def fetchSolPrice_keeps init_counts
        processAutoSell_counts)

lemma failures_never_counted:
  assumes "\<forall>p. failures_of t p = 0"
  shows "failures_of (lt_run cfg t ops) p = 0"
proof -
  have "lt_sellFailureCounts (lt_run cfg t ops) = lt_sellFailureCounts t"
    using assms unfolding lt_run_def
  proof (induction ops arbitrary: t)
    case Nil
    show ?case by simp
  next
    case (Cons op rest)
    have same: "lt_sellFailureCounts (lt_step cfg t op) = lt_sellFailureCounts t"
      by (rule counts_step [OF Cons.prems])
    then have "\<forall>p. failures_of (lt_step cfg t op) p = 0"
      using Cons.prems by (simp add: failures_of_def)
    from Cons.IH [OF this] same show ?case by simp
  qed
  with assms show ?thesis by (simp add: failures_of_def)
qed

lemma failures_of_new: "failures_of (new_LiveTrader cfg now) p = 0"
  by (simp add: failures_of_def new_LiveTrader_def)

text \<open>The circuit breaker: \<open>_recordLoss\<close> within a day and across a midnight.\<close>

lemma recordLoss_same_day:
  assumes "now < lt_dailyLossReset t"
  shows "lt_dailyLoss (recordLoss cfg now a t) = dadd (lt_dailyLoss t) a"
    and "lt_dailyLossReset (recordLoss cfg now a t) = lt_dailyLossReset t"
  using assms by (simp_all add: recordLoss_def Let_def)

lemma recordLoss_new_day:
  assumes "lt_dailyLossReset t \<le> now"
  shows "lt_dailyLoss (recordLoss cfg now a t) = dadd 0 a"
    and "lt_dailyLossReset (recordLoss cfg now a t) = todayMidnightUtc now"
  using assms by (simp_all add: recordLoss_def Let_def)

lemma recordLoss_halted_iff:
  "lt_halted (recordLoss cfg now a t)
   \<longleftrightarrow> lt_halted t \<or> cfg_maxDailyLossUsd cfg \<le> lt_dailyLoss (recordLoss cfg now a t)"
  by (simp add: recordLoss_def Let_def)

lemma recordLosses_snoc:
  "recordLosses cfg t (ls @ [l]) = recordLoss cfg (fst l) (snd l) (recordLosses cfg t ls)"
  by (simp add: recordLosses_def)

lemma recordLosses_Cons:
  "recordLosses cfg t (l # ls) = recordLosses cfg (recordLoss cfg (fst l) (snd l) t) ls"
  by (simp add: recordLosses_def)

lemma recordLosses_same_day:
  assumes "\<forall>l\<in>set losses. fst l < lt_dailyLossReset t"
  shows "lt_dailyLoss (recordLosses cfg t losses) = foldl dadd (lt_dailyLoss t) (map snd losses)
         \<and> lt_dailyLossReset (recordLosses cfg t losses) = lt_dailyLossReset t"
  using assms
proof (induction losses rule: rev_induct)
  case Nil
  show ?case by (simp add: recordLosses_def)
next
  case (snoc l ls)
  then have ih: "lt_dailyLoss (recordLosses cfg t ls) = foldl dadd (lt_dailyLoss t) (map snd ls)"
    "lt_dailyLossReset (recordLosses cfg t ls) = lt_dailyLossReset t"
    by simp_all
  from snoc.prems have "fst l < lt_dailyLossReset (recordLosses cfg t ls)"
    by (simp add: ih)
  then show ?case
    by (simp add: recordLosses_snoc recordLoss_same_day ih)
qed

lemma before_midnight: "now < todayMidnightUtc now"
proof -
  have "now = now div 86400000 * 86400000 + now mod 86400000" by simp
  moreover have "now mod 86400000 < 86400000" by simp
  ultimately show ?thesis
    unfolding todayMidnightUtc_def by (simp add: algebra_simps)
qed

lemma midnight_least:
  assumes "86400000 dvd r" and "now < r"
  shows "todayMidnightUtc now \<le> r"
proof -
  from assms(1) obtain k where r: "r = 86400000 * k" ..
  have "now div 86400000 < k"
  proof (rule ccontr)
    assume "\<not> now div 86400000 < k"
    then have "k \<le> now div 86400000" by simp
    then have "86400000 * k \<le> 86400000 * (now div 86400000)" by simp
    also have "\<dots> \<le> now"
      using div_mult_mod_eq [of now 86400000] by (simp add: algebra_simps) 
    finally show False using assms(2) r by simp
  qed
  then have "now div 86400000 + 1 \<le> k" by simp
  then have "(now div 86400000 + 1) * 86400000 \<le> k * 86400000"
    by (rule mult_right_mono) simp
  then show ?thesis
    unfolding todayMidnightUtc_def r by (simp add: algebra_simps)
qed

text \<open>The reset time of a trader is a UTC midnight, from the constructor on.\<close>

lemma midnight_aligned: "86400000 dvd todayMidnightUtc now"
  by (simp add: todayMidnightUtc_def)

lemma reset_step:
  assumes "86400000 dvd lt_dailyLossReset t"
  shows "86400000 dvd lt_dailyLossReset (lt_step cfg t op)"
proof (cases op)
  case (ExecuteTrade env opportunity)
  with assms show ?thesis
    by (simp add: executeTrade_returns_null fetchSolPrice_keeps)
next
  case (RecordLoss now amount)
  with assms show ?thesis
    by (simp add: recordLoss_def Let_def midnight_aligned)
next
  case (FetchSolPrice now api)
  with assms show ?thesis
    by (simp add: fetchSolPrice_keeps)
next
  case (Init now api lamports)
  with assms fetchSolPrice_keeps(8) [of now api t] show ?thesis
    by (auto simp: init_def Let_def split: prod.splits option.splits)
next
  case (ProcessAutoSell now q api lamports txId symb)
  with assms fetchSolPrice_keeps(8) [of now api t] show ?thesis
    by (auto simp: processAutoSell_def Let_def split: prod.splits option.splits)
qed

lemma reset_time_is_midnight:
  "86400000 dvd lt_dailyLossReset (lt_run cfg (new_LiveTrader cfg now) ops)"
proof -
  have "86400000 dvd lt_dailyLossReset t \<Longrightarrow> 86400000 dvd lt_dailyLossReset (lt_run cfg t ops)"
    for t
    unfolding lt_run_def
    by (induction ops arbitrary: t) (simp_all add: reset_step)
  moreover have "86400000 dvd lt_dailyLossReset (new_LiveTrader cfg now)"
    by (simp add: new_LiveTrader_def midnight_aligned)
  ultimately show ?thesis by blast
qed

text \<open>
  Losses of one UTC day bring the tally to \<open>dayTally\<close>, when the trader's reset time is a
  UTC midnight (the constructor and every reset make it one).
\<close>

lemma recordLosses_one_day:
  assumes ne: "losses \<noteq> []"
    and day: "\<forall>l\<in>set losses. todayMidnightUtc (fst l) = d"
    and aligned: "86400000 dvd lt_dailyLossReset t"
  shows "lt_dailyLoss (recordLosses cfg t losses) = dayTally t losses"
proof -
  from ne obtain l rest where losses: "losses = l # rest" by (cases losses) auto
  have before: "\<forall>x\<in>set losses. fst x < d"
    using day before_midnight by metis
  show ?thesis
  proof (cases "lt_dailyLossReset t \<le> fst l")
    case True
    let ?t1 = "recordLoss cfg (fst l) (snd l) t"
    have reset1: "lt_dailyLossReset ?t1 = d"
      using recordLoss_new_day(2) [OF True] day losses by simp
    have tally1: "lt_dailyLoss ?t1 = dadd 0 (snd l)"
      by (rule recordLoss_new_day(1) [OF True])
    have "\<forall>x\<in>set rest. fst x < lt_dailyLossReset ?t1"
      using before losses reset1 by simp
    from recordLosses_same_day [OF this, of cfg] tally1 True show ?thesis
      by (simp add: losses recordLosses_Cons dayTally_def)
  next
    case False
    then have "fst l < lt_dailyLossReset t" by simp
    from midnight_least [OF aligned this] day losses have "d \<le> lt_dailyLossReset t"
      by simp
    with before have "\<forall>x\<in>set losses. fst x < lt_dailyLossReset t"
      by fastforce
    from recordLosses_same_day [OF this, of cfg] False show ?thesis
      by (simp add: losses dayTally_def)
  qed
qed

text \<open>
  The code after the simulations, which no call reaches: the sell loop, the bookkeeping
  of a failed and of a successful sell leg, and step 6 with a positive profit.
\<close>

lemma sellLoop_truthy_iff:
  "truthy (sellLoop sub r a) \<longleftrightarrow> (\<exists>k\<in>{Suc a..nat (r + 1)}. truthy (sub k))"
proof (induction sub r a rule: sellLoop.induct)
  case (1 submit sellRetries attemptSell)
  show ?case
  proof (cases "int attemptSell \<le> sellRetries")
    case False
    then have "{Suc attemptSell..nat (sellRetries + 1)} = {}" by auto
    with False show ?thesis by (subst sellLoop.simps) (simp add: truthy_def)
  next
    case True
    then have split: "{Suc attemptSell..nat (sellRetries + 1)}
                = insert (Suc attemptSell) {Suc (Suc attemptSell)..nat (sellRetries + 1)}"
      by auto
    show ?thesis
    proof (cases "truthy (submit (Suc attemptSell))")
      case t: True
      with True split show ?thesis by (subst sellLoop.simps) auto
    next
      case f: False
      with "1.IH" True
      have "truthy (sellLoop submit sellRetries (Suc attemptSell))
            \<longleftrightarrow> (\<exists>k\<in>{Suc (Suc attemptSell)..nat (sellRetries + 1)}. truthy (submit k))"
        by blast
      with True f split show ?thesis by (subst sellLoop.simps) auto
    qed
  qed
qed

lemma sellLoop_falsy_None: "\<not> truthy (sellLoop sub r a) \<Longrightarrow> sellLoop sub r a = None"
proof (induction sub r a rule: sellLoop.induct)
  case (1 submit sellRetries attemptSell)
  from "1.prems" have "\<not> truthy (if int attemptSell \<le> sellRetries
      then if truthy (submit (Suc attemptSell)) then submit (Suc attemptSell)
           else sellLoop submit sellRetries (Suc attemptSell)
      else None)"
    by (subst (asm) sellLoop.simps) simp
  with "1.IH" show ?case
    by (subst sellLoop.simps) (auto split: if_splits)
qed

lemma submitLegs_partial:
  assumes "\<not> lt_dryRun t1" and "truthy (env_buySubmit env)"
    and "\<forall>k\<in>{1..nat (cfg_sellRetryCount cfg + 1)}. \<not> truthy (env_sellSubmit env k)"
  shows "submitLegs cfg env opportunity a t1 =
     Some (env_buySubmit env, None,
           t1\<lparr>lt_sellFailureCounts := (lt_sellFailureCounts t1)
                 (opp_pair opportunity \<mapsto> failures_of t1 (opp_pair opportunity) + 1)\<rparr>,
           (if failures_of t1 (opp_pair opportunity) + 1 \<ge> lt_failureThreshold t1
            then [NotifyAdaptiveRaise (opp_pair opportunity)
                    (failures_of t1 (opp_pair opportunity) + 1)] else [])
           @ [NotifyPartialTrade (opp_pair opportunity) (tx_text (env_buySubmit env))
                (cfg_sellRetryCount cfg + 1) a])"
proof -
  have nosell: "\<not> truthy (sellLoop (env_sellSubmit env) (cfg_sellRetryCount cfg) 0)"
    using assms(3) by (simp add: sellLoop_truthy_iff)
  from assms(1,2) nosell sellLoop_falsy_None [OF nosell] show ?thesis
    by (simp add: submitLegs_def Let_def)
qed

lemma submitLegs_success:
  assumes "\<not> lt_dryRun t1" and "truthy (env_buySubmit env)"
    and "\<exists>k\<in>{1..nat (cfg_sellRetryCount cfg + 1)}. truthy (env_sellSubmit env k)"
  shows "submitLegs cfg env opportunity a t1 =
     Some (env_buySubmit env, sellLoop (env_sellSubmit env) (cfg_sellRetryCount cfg) 0,
           (if failures_of t1 (opp_pair opportunity) \<noteq> 0
            then t1\<lparr>lt_sellFailureCounts := (lt_sellFailureCounts t1)(opp_pair opportunity \<mapsto> 0)\<rparr>
            else t1),
           (if failures_of t1 (opp_pair opportunity) \<noteq> 0
            then [NotifyRevert (opp_pair opportunity)] else []))"
proof -
  have "truthy (sellLoop (env_sellSubmit env) (cfg_sellRetryCount cfg) 0)"
    using assms(3) by (simp add: sellLoop_truthy_iff)
  with assms(1,2) show ?thesis
    by (simp add: submitLegs_def Let_def)
qed

lemma settle_profit:
  assumes "0 < q_realProfit q"
  shows "settle cfg env opportunity q b s t =
     (tradeRecord env opportunity q (lt_dryRun t) b s,
      t\<lparr>lt_balance := dadd (lt_balance t) (q_realProfit q)\<rparr>,
      discrepancyAlert env opportunity (q_tradeAmountUsd q) (q_realProfit q)
      @ [RecordTrade (tradeRecord env opportunity q (lt_dryRun t) b s),
         UpdateBalance (dadd (lt_balance t) (q_realProfit q))
           ((case env_balanceRecord env of None \<Rightarrow> 0 | Some r \<Rightarrow> br_total_trades r) + 1)
           ((case env_balanceRecord env of None \<Rightarrow> 0 | Some r \<Rightarrow> br_winning_trades r) + 1)
           (dadd (case env_balanceRecord env of None \<Rightarrow> 0 | Some r \<Rightarrow> br_total_profit r)
              (q_realProfit q))])"
  using assms by (simp add: settle_def Let_def)

subsection \<open>The examples, evaluated\<close>

lemmas example_defs =
  cfg_live_def cfg_example_def opp_example_def env_example_def trader_example_def new_LiveTrader_def
  todayMidnightUtc_def sell_never_def sell_at_once_def

lemma trader_example_not_halted: "\<not> lt_halted trader_example"
  by (simp add: example_defs)

lemma calcTradeAmount_example: "calcTradeAmount cfg_live trader_example opp_example = 10"
  by code_simp

text \<open>
  In the example environment the checks of steps 1 to 4 pass: the wallet covers the gas
  reserve and the trade, the buy quote is for 100000000 lamports, the profit of the live
  quotes is positive and its percentage (just below 3) is above the required 1.67.
\<close>

lemma example_reaches_simulation:
  "assertGasReserve cfg_live (Some 1000000000) 10 100"
  "usdToLamports 10 100 = 100000000"
  "dmul (ddiv 100000000 LAMPORTS_PER_SOL) 100 = 10"
  "dmul (ddiv 103000000 LAMPORTS_PER_SOL) 100 = 5798384520239513 / 562949953421312"
  "dsub (5798384520239513 / 562949953421312) 10 = 168884986026393 / 562949953421312"
  "dmul (ddiv (168884986026393 / 562949953421312) 10) 100 = 844424930131965 / 281474976710656"
  "dmul (getEffectiveMinProfitPercent cfg_live trader_example_priced ''RAY/SOL'') 100
   = 940126422213591 / 562949953421312"
  by code_simp+

lemma calcTradeAmount_balance:
  "lt_balance t' = lt_balance t \<Longrightarrow>
   calcTradeAmount cfg t' opportunity = calcTradeAmount cfg t opportunity"
  by (simp add: calcTradeAmount_def)

lemma fetchSolPrice_example:
  "snd (fetchSolPrice 1000 (Some 100) trader_example) = trader_example_priced"
  by (simp add: fetchSolPrice_def trader_example_priced_def example_defs)

lemma fetchSolPrice_cached:
  "now - 1000 < 60000 \<Longrightarrow> snd (fetchSolPrice now (Some 100) trader_example_priced) = trader_example_priced"
  by (simp add: fetchSolPrice_def trader_example_priced_def example_defs)

lemma executeTrade_example:
  "executeTrade cfg_live (env_example 1000 sub) opp_example trader_example
   = (None, trader_example_priced, [])"
  by (simp add: executeTrade_returns_null trader_example_not_halted calcTradeAmount_example
      fetchSolPrice_example env_example_def)

lemma trader_example_priced_facts:
  "\<not> lt_halted trader_example_priced"
  "lt_balance trader_example_priced = 20"
  "lt_sellFailureCounts trader_example_priced = Map.empty"
  "lt_raisedMinProfitPct trader_example_priced = round_double (1 / 100)"
  "lt_failureThreshold trader_example_priced = 3"
  by (simp_all add: trader_example_priced_def example_defs)

lemma executeTrade_example_priced:
  "now - 1000 < 60000 \<Longrightarrow>
   executeTrade cfg_live (env_example now sub) opp_example trader_example_priced
   = (None, trader_example_priced, [])"
  using calcTradeAmount_balance [of trader_example_priced trader_example cfg_live opp_example]
  by (simp add: executeTrade_returns_null trader_example_priced_facts calcTradeAmount_example
      fetchSolPrice_cached env_example_def trader_example_def new_LiveTrader_def cfg_live_def
      cfg_example_def)

lemma trader_after_streak_eq: "trader_after_streak = trader_example_priced"
  by (simp add: trader_after_streak_def calls_example_def lt_run_def executeTrade_example
      executeTrade_example_priced)

subsection \<open>The circuit breaker\<close>

lemma breaker_halts_at_tally:
  assumes "losses \<noteq> []"
    and "\<forall>l\<in>set losses. todayMidnightUtc (fst l) = day"
    and "86400000 dvd lt_dailyLossReset t"
    and "cfg_maxDailyLossUsd cfg \<le> dayTally t losses"
  shows "lt_halted (recordLosses cfg t losses)"
proof -
  from assms(1) obtain ls l where split: "losses = ls @ [l]"
    by (cases losses rule: rev_cases) auto
  have "lt_dailyLoss (recordLosses cfg t losses) = dayTally t losses"
    by (rule recordLosses_one_day [OF assms(1-3)])
  with assms(4) have "cfg_maxDailyLossUsd cfg \<le> lt_dailyLoss (recordLosses cfg t losses)"
    by simp
  then show ?thesis
    unfolding split recordLosses_snoc
    by (subst recordLoss_halted_iff) simp
qed

text \<open>
  C6, as amended. Take the engine in any state it can reach: a \<open>LiveTrader\<close> constructed at
  some time \<open>built\<close>, after any operations \<open>before\<close>. Losses recorded within one UTC day
  whose tally, as the code accumulates it in double precision, reaches the configured
  daily-loss limit (it equals the limit or exceeds it after the last loss) set the halted
  flag, and the flag stays set after any further operations \<open>ops\<close> of the engine, calls of
  \<open>executeTrade\<close> included.
\<close>

theorem breaker_latches_at_limit:
  assumes "losses \<noteq> []"
    and "\<forall>l\<in>set losses. todayMidnightUtc (fst l) = day"
    and "cfg_maxDailyLossUsd cfg
         \<le> dayTally (lt_run cfg (new_LiveTrader cfg built) before) losses"
  shows "lt_halted (recordLosses cfg (lt_run cfg (new_LiveTrader cfg built) before) losses)
         \<and> lt_halted (lt_run cfg
              (recordLosses cfg (lt_run cfg (new_LiveTrader cfg built) before) losses) ops)"
proof -
  have "lt_halted (recordLosses cfg (lt_run cfg (new_LiveTrader cfg built) before) losses)"
    by (rule breaker_halts_at_tally [OF assms(1,2) reset_time_is_midnight assms(3)])
  then show ?thesis by (simp add: halted_run)
qed

lemma trader_day0_loss_run:
  "lt_run cfg_live (new_LiveTrader cfg_live 0) [RecordLoss 1000 1] = trader_day0_loss"
  by (simp add: lt_run_def trader_day0_loss_def trader_example_def)

lemma trader_day0_loss_facts:
  "lt_dailyLoss trader_day0_loss = 1"
  "lt_dailyLossReset trader_day0_loss = 86400000"
  "\<not> lt_halted trader_day0_loss"
  by code_simp+

theorem breaker_latches_at_limit_witness:
  "losses_example \<noteq> []
   \<and> todayMidnightUtc (fst (losses_example ! 0)) = 172800000
   \<and> todayMidnightUtc (fst (losses_example ! 1)) = 172800000
   \<and> lt_run cfg_live (new_LiveTrader cfg_live 0) [RecordLoss 1000 1] = trader_day0_loss
   \<and> lt_dailyLoss trader_day0_loss = 1
   \<and> \<not> lt_halted trader_day0_loss
   \<and> dayTally trader_day0_loss losses_example = 2
   \<and> cfg_maxDailyLossUsd cfg_live \<le> dayTally trader_day0_loss losses_example
   \<and> lt_halted (recordLosses cfg_live trader_day0_loss losses_example)
   \<and> lt_halted (lt_run cfg_live (recordLosses cfg_live trader_day0_loss losses_example)
        [ExecuteTrade (env_example 86400003 sell_at_once) opp_example])"
proof -
  have h1: "losses_example \<noteq> []"
    by (simp add: losses_example_def)
  have h2a: "todayMidnightUtc (fst (losses_example ! 0)) = 172800000"
    and h2b: "todayMidnightUtc (fst (losses_example ! 1)) = 172800000"
    by (simp_all add: losses_example_def todayMidnightUtc_def)
  have h2: "\<forall>l\<in>set losses_example. todayMidnightUtc (fst l) = 172800000"
    by (simp add: losses_example_def todayMidnightUtc_def)
  have tally: "dayTally trader_day0_loss losses_example = 2"
    by code_simp
  have limit: "cfg_maxDailyLossUsd cfg_live = 2"
    by (simp add: cfg_live_def cfg_example_def)
  have h3: "cfg_maxDailyLossUsd cfg_live \<le> dayTally trader_day0_loss losses_example"
    unfolding tally limit by simp
  note c = breaker_latches_at_limit [of losses_example 172800000 cfg_live 0 "[RecordLoss 1000 1]",
      unfolded trader_day0_loss_run, OF h1 h2 h3]
  show ?thesis
    by (intro conjI h1 h2a h2b trader_day0_loss_run trader_day0_loss_facts(1,3) tally h3
        c [THEN conjunct1] c [THEN conjunct2])
qed

text \<open>
  C6, as stated, fails: the example trader records four losses of one day, doubles whose
  sum is exactly the limit of 2 USD. The tally the code accumulates is
  \<open>1.9999999999999998\<close>, below the limit, and the trader is not halted.
\<close>

theorem exact_sum_at_limit_not_halted:
  "sum_list (map snd losses_rounding) = cfg_maxDailyLossUsd cfg_live
   \<and> map (round_double \<circ> snd) losses_rounding = map snd losses_rounding
   \<and> map (todayMidnightUtc \<circ> fst) losses_rounding = [86400000, 86400000, 86400000, 86400000]
   \<and> lt_dailyLossReset trader_example = 86400000
   \<and> lt_dailyLoss (recordLosses cfg_live trader_example losses_rounding)
       = 9007199254740991 / 4503599627370496
   \<and> lt_dailyLoss (recordLosses cfg_live trader_example losses_rounding)
       < cfg_maxDailyLossUsd cfg_live
   \<and> \<not> lt_halted (recordLosses cfg_live trader_example losses_rounding)"
proof -
  have c1: "sum_list (map snd losses_rounding) = cfg_maxDailyLossUsd cfg_live"
    by (simp add: losses_rounding_def cfg_live_def cfg_example_def)
  have c2: "map (round_double \<circ> snd) losses_rounding = map snd losses_rounding"
    by code_simp
  have c3: "map (todayMidnightUtc \<circ> fst) losses_rounding
            = [86400000, 86400000, 86400000, 86400000]"
    by (simp add: losses_rounding_def todayMidnightUtc_def)
  have c4: "lt_dailyLossReset trader_example = 86400000"
    by (simp add: example_defs)
  have c5: "lt_dailyLoss (recordLosses cfg_live trader_example losses_rounding)
            = 9007199254740991 / 4503599627370496"
    by code_simp
  have limit: "cfg_maxDailyLossUsd cfg_live = 2"
    by (simp add: cfg_live_def cfg_example_def)
  have c6: "lt_dailyLoss (recordLosses cfg_live trader_example losses_rounding)
            < cfg_maxDailyLossUsd cfg_live"
    unfolding c5 limit by simp
  have c7: "\<not> lt_halted (recordLosses cfg_live trader_example losses_rounding)"
    by code_simp
  show ?thesis
    by (intro conjI c1 c2 c3 c4 c5 c6 c7)
qed

text \<open>
  C3, as amended: once the engine is halted, every call of \<open>executeTrade\<close> returns \<open>null\<close>
  with no effect and no change of the trader, whatever operations the engine performs
  before the call and at whatever clock readings, the reset of the tally at the next UTC
  midnight included. Nothing in the engine clears the flag; only a new \<open>LiveTrader\<close> (a
  restart of the process) starts with it cleared.
\<close>

theorem halted_executeTrade_always_skips:
  "lt_halted t \<Longrightarrow>
   executeTrade cfg env opportunity (lt_run cfg t ops) = (None, lt_run cfg t ops, [])"
  by (simp add: halted_run executeTrade_halted)

lemma trader_halted_day0_facts:
  "lt_halted trader_halted_day0"
  "lt_dailyLossReset trader_halted_day0 = 86400000"
  by code_simp+

lemma trader_next_day_facts:
  "lt_dailyLoss trader_next_day = 1 / 2"
  "lt_dailyLossReset trader_next_day = 172800000"
  "lt_halted trader_next_day"
  by code_simp+

theorem halted_executeTrade_always_skips_witness:
  "lt_halted trader_halted_day0
   \<and> executeTrade cfg_live (env_example 86400002 sell_at_once) opp_example
       (lt_run cfg_live trader_halted_day0 [RecordLoss 86400001 (1 / 2)])
     = (None, lt_run cfg_live trader_halted_day0 [RecordLoss 86400001 (1 / 2)], [])"
  using halted_executeTrade_always_skips [OF trader_halted_day0_facts(1)]
    trader_halted_day0_facts(1)
  by simp

text \<open>
  C3, as stated, fails: the example trader is halted by a loss of the daily limit on day 0;
  a loss recorded just after the next UTC midnight resets the tally (it is then 0.5, below
  the limit of 2, and the reset time has moved to the following midnight); the trader is
  still halted and \<open>executeTrade\<close> still returns \<open>null\<close> at the guard, leaving the trader as
  it is. (The guard is what stops the call: the same trader with the flag cleared gets
  past it and refreshes its price cache.)
\<close>

theorem halt_survives_midnight_reset:
  "lt_halted trader_halted_day0
   \<and> lt_dailyLossReset trader_halted_day0 = 86400000
   \<and> lt_dailyLoss trader_next_day = 1 / 2
   \<and> lt_dailyLoss trader_next_day < cfg_maxDailyLossUsd cfg_live
   \<and> lt_dailyLossReset trader_next_day = 172800000
   \<and> lt_halted trader_next_day
   \<and> executeTrade cfg_live (env_example 86400002 sell_at_once) opp_example trader_next_day
       = (None, trader_next_day, [])
   \<and> lt_solPriceUsd trader_next_day = None
   \<and> lt_solPriceUsd (trader_after
        (executeTrade cfg_live (env_example 86400002 sell_at_once) opp_example
           (trader_next_day\<lparr>lt_halted := False\<rparr>))) = Some 100"
proof -
  have limit: "cfg_maxDailyLossUsd cfg_live = 2"
    by (simp add: cfg_live_def cfg_example_def)
  have below: "lt_dailyLoss trader_next_day < cfg_maxDailyLossUsd cfg_live"
    unfolding trader_next_day_facts limit by simp
  have skips: "executeTrade cfg_live (env_example 86400002 sell_at_once) opp_example
                 trader_next_day = (None, trader_next_day, [])"
    by (rule executeTrade_halted [OF trader_next_day_facts(3)])
  have cache: "lt_solPriceUsd trader_next_day = None"
    by code_simp
  have bal: "lt_balance (trader_next_day\<lparr>lt_halted := False\<rparr>) = lt_balance trader_example"
    by code_simp
  have passes: "lt_solPriceUsd (trader_after
        (executeTrade cfg_live (env_example 86400002 sell_at_once) opp_example
           (trader_next_day\<lparr>lt_halted := False\<rparr>))) = Some 100"
    using calcTradeAmount_balance [OF bal, of cfg_live opp_example] cache
    by (simp add: executeTrade_returns_null trader_after_def calcTradeAmount_example
        fetchSolPrice_def env_example_def)
  show ?thesis
    by (intro conjI trader_halted_day0_facts trader_next_day_facts below skips cache passes)
qed

subsection \<open>The failed sell leg\<close>

text \<open>
  C5, evaluated on the code at the scenario of the claim: the checks before the
  simulations pass (the example inputs), \<open>_submitSwap\<close> would confirm the buy leg and
  would fail on every sell attempt. The call returns \<open>null\<close>, not a partial-failure
  result; no alert is sent (no effect at all); the failure counter of the pair is still 0.
  The trader has only refreshed its price cache.
\<close>

theorem partial_failure_scenario_returns_null:
  "executeTrade cfg_live (env_example 1000 sell_never) opp_example trader_example
     = (None, trader_example_priced, [])
   \<and> failures_of trader_example ''RAY/SOL'' = 0
   \<and> failures_of trader_example_priced ''RAY/SOL'' = 0"
proof -
  have "failures_of trader_example ''RAY/SOL'' = 0"
    unfolding trader_example_def by (rule failures_of_new)
  moreover have "failures_of trader_example_priced ''RAY/SOL'' = 0"
    by (simp add: failures_of_def trader_example_priced_facts)
  ultimately show ?thesis
    by (simp add: executeTrade_example)
qed

text \<open>
  C4, evaluated on the code at the same scenario: nothing is booked. The call returns no
  trade record, makes no ledger write (\<open>recordTrade\<close>, \<open>updateBalance\<close>) and leaves the running
  balance at the starting capital of 20 USD, where the claim has the quoted profit added.
  Nor does the scenario with a successful sell leg book anything.
\<close>

theorem partial_failure_scenario_books_nothing:
  "returned (executeTrade cfg_live (env_example 1000 sell_never) opp_example trader_example)
     = None
   \<and> effects_of (executeTrade cfg_live (env_example 1000 sell_never) opp_example
        trader_example) = []
   \<and> lt_balance (trader_after (executeTrade cfg_live (env_example 1000 sell_never)
        opp_example trader_example)) = 20
   \<and> returned (executeTrade cfg_live (env_example 1000 sell_at_once) opp_example
        trader_example) = None
   \<and> effects_of (executeTrade cfg_live (env_example 1000 sell_at_once) opp_example
        trader_example) = []"
  by (simp add: executeTrade_example returned_def effects_of_def trader_after_def
      trader_example_priced_facts)

subsection \<open>The adaptive profit threshold\<close>

text \<open>
  C7, evaluated on the code: after three consecutive calls of \<open>executeTrade\<close> on the pair
  \<open>RAY/SOL\<close>, in each of which the buy leg would be confirmed and every sell attempt would
  fail, the failure counter of the pair is 0 and the effective minimum profit percent is
  the configured default (0.0167), not the raised value (0.01, as a double).
\<close>

theorem failure_streak_scenario_keeps_default:
  "failures_of trader_after_streak ''RAY/SOL'' = 0
   \<and> lt_failureThreshold trader_after_streak = 3
   \<and> getEffectiveMinProfitPercent cfg_live trader_after_streak ''RAY/SOL''
       = cfg_minProfitPercent cfg_live
   \<and> cfg_minProfitPercent cfg_live = 2406723640866793 / 144115188075855872
   \<and> lt_raisedMinProfitPct trader_after_streak = 5764607523034235 / 576460752303423488"
proof -
  have raised: "round_double (1 / 100) = 5764607523034235 / 576460752303423488"
    by code_simp
  have default: "cfg_minProfitPercent cfg_live = 2406723640866793 / 144115188075855872"
    by code_simp
  have "getEffectiveMinProfitPercent cfg_live trader_after_streak ''RAY/SOL''
        = cfg_minProfitPercent cfg_live"
    by (simp add: trader_after_streak_eq getEffectiveMinProfitPercent_def failures_of_def
        trader_example_priced_facts)
  with default show ?thesis
    by (simp add: trader_after_streak_eq failures_of_def trader_example_priced_facts raised)
qed

subsection \<open>The detector: slippage\<close>

lemmas scan_defs =
  findArbitrageOpportunities_def pairStep_def scan_init_def buyFactor_def sellFactor_def
  webhookSet_def point_def cfg_slip_def cfg_example_def at_1000_def truthy_def Let_def

text \<open>
  Why the two claims about slippage fail: \<open>config.js\<close> defines no \<open>discoverySlippage\<close>, so both
  factors are \<open>slippageTolerance\<close> itself and cancel in the profit percent, which is the raw
  spread whatever the tolerance.
\<close>

lemma factors_without_discoverySlippage:
  "cfg_discoverySlippage cfg = None \<Longrightarrow>
   buyFactor cfg = cfg_slippageTolerance cfg \<and> sellFactor cfg = cfg_slippageTolerance cfg"
  by (simp add: buyFactor_def sellFactor_def)

lemma profit_without_discoverySlippage:
  assumes "cfg_discoverySlippage cfg = None" and "cfg_slippageTolerance cfg \<noteq> 0"
  shows "((sellPrice * sellFactor cfg - buyPrice * buyFactor cfg) / (buyPrice * buyFactor cfg)) * 100
         = ((sellPrice - buyPrice) / buyPrice) * 100"
proof -
  have "sellPrice * cfg_slippageTolerance cfg - buyPrice * cfg_slippageTolerance cfg
        = (sellPrice - buyPrice) * cfg_slippageTolerance cfg"
    by (simp add: algebra_simps)
  then show ?thesis
    using assms by (simp add: factors_without_discoverySlippage)
qed

text \<open>
  C2, evaluated on the code at the scenario of the claim (price 100 on X, 102 on Y, both
  fresh, slippage tolerance 0.01, minimum profit 0.5 %, \<open>discoverySlippage\<close> undefined as in
  \<open>config.js\<close>): the adjusted buy price is 1 and not 101, the adjusted sell price is 1.02
  and not 100.98, the profit percent is 2 and not about -0.02, and the opportunity is emitted.
\<close>

theorem slippage_scenario_emits_opportunity:
  "findArbitrageOpportunities (cfg_slip (1 / 100)) at_1000
     [point ''X'' 100 1000, point ''Y'' 102 1000] ''TOK''
   = ([LogBestSpread ''TOK'' 2 ''X->Y'' TagMet (1 / 2)],
      Inr [\<lparr>opp_buyExchange = ''X'', opp_sellExchange = ''Y'', opp_buyPrice = 1,
            opp_sellPrice = 102 / 100, opp_profitPercent = 2, opp_timestamp = 1000\<rparr>])"
  by (simp add: scan_defs)

text \<open>
  C8, evaluated on the code: with raw prices 100 and 105 the profit percent of the emitted
  opportunity is 5 for a slippage tolerance of 0.01 and again 5 for 0.02; it does not
  decrease when the configured slippage grows.
\<close>

theorem profit_percent_same_for_two_slippages:
  "snd (findArbitrageOpportunities (cfg_slip (1 / 100)) at_1000
          [point ''X'' 100 1000, point ''Y'' 105 1000] ''TOK'')
     = Inr [\<lparr>opp_buyExchange = ''X'', opp_sellExchange = ''Y'', opp_buyPrice = 1,
             opp_sellPrice = 105 / 100, opp_profitPercent = 5, opp_timestamp = 1000\<rparr>]
   \<and> snd (findArbitrageOpportunities (cfg_slip (2 / 100)) at_1000
          [point ''X'' 100 1000, point ''Y'' 105 1000] ''TOK'')
     = Inr [\<lparr>opp_buyExchange = ''X'', opp_sellExchange = ''Y'', opp_buyPrice = 2,
             opp_sellPrice = 210 / 100, opp_profitPercent = 5, opp_timestamp = 1000\<rparr>]"
  by (simp add: scan_defs)

subsection \<open>The detector: what it returns and what it writes\<close>

lemma rawSpread_pos_iff:
  fixes a b :: rat
  assumes "min a b \<noteq> 0"
  shows "0 < ((max a b - min a b) / min a b) * 100 \<longleftrightarrow> a \<noteq> b \<and> 0 < min a b"
proof (cases "0 < min a b")
  case True
  then show ?thesis by (auto simp: zero_less_divide_iff min_def max_def)
next
  case False
  define x where "x = (max a b - min a b) / min a b"
  have "min a b < 0 \<or> min a b = 0 \<or> 0 < min a b" by (rule less_linear)
  with False assms have neg: "min a b < 0" by blast
  have "0 \<le> max a b - min a b" by (simp add: min_def max_def)
  with neg have "x \<le> 0"
    unfolding x_def by (simp add: divide_nonneg_neg)
  then have "x * 100 \<le> 0"
    by (simp add: mult_le_0_iff)
  then have "\<not> 0 < x * 100"
    by (simp only: not_less)
  with False show ?thesis
    unfolding x_def by blast
qed

lemma pairStep_bestPair:
  assumes "pairStep cfg now price1 price2 st = Inr st'" and "scan_inv st"
  shows "scan_inv st'
         \<and> (ss_bestPair st' \<noteq> [] \<longleftrightarrow> ss_bestPair st \<noteq> [] \<or> spreadSeen now price1 price2)"
proof (cases "now - pp_timestamp price1 > 10000 \<or> now - pp_timestamp price2 > 10000
              \<or> pp_exchange price1 = pp_exchange price2")
  case True
  with assms(1) have "st' = st"
    by (auto simp: pairStep_def split: if_splits)
  with True assms(2) show ?thesis
    by (auto simp: spreadSeen_def)
next
  case False
  let ?buy = "min (pp_price price1) (pp_price price2)"
  let ?sell = "max (pp_price price1) (pp_price price2)"
  let ?raw = "((?sell - ?buy) / ?buy) * 100"
  from assms(1) False have nz: "?buy \<noteq> 0"
    by (auto simp: pairStep_def Let_def split: if_splits)
  from assms(1) False nz
  have best: "ss_bestSpread st' = (if ?raw > ss_bestSpread st then ?raw else ss_bestSpread st)"
    and pair: "ss_bestPair st' \<noteq> [] \<longleftrightarrow> (?raw > ss_bestSpread st \<or> ss_bestPair st \<noteq> [])"
    by (auto simp: pairStep_def Let_def split: if_splits)
  have seen: "spreadSeen now price1 price2 \<longleftrightarrow> 0 < ?raw"
    using False rawSpread_pos_iff [OF nz] by (simp add: spreadSeen_def)
  from assms(2) best pair seen show ?thesis
    unfolding scan_inv_def by (auto split: if_splits)
qed

lemma scanPairs_bestPair:
  assumes "scanPairs cfg clock k ps st = Inr st'" and "scan_inv st"
  shows "scan_inv st'
         \<and> (ss_bestPair st' \<noteq> [] \<longleftrightarrow>
              ss_bestPair st \<noteq> []
              \<or> (\<exists>i<length ps. spreadSeen (clock (k + i)) (fst (ps ! i)) (snd (ps ! i))))"
  using assms
proof (induction ps arbitrary: k st)
  case Nil
  then show ?case by simp
next
  case (Cons pr rest)
  from Cons.prems(1) obtain st1 where
    one: "pairStep cfg (clock k) (fst pr) (snd pr) st = Inr st1"
    and more: "scanPairs cfg clock (Suc k) rest st1 = Inr st'"
    by (auto split: sum.splits)
  from pairStep_bestPair [OF one Cons.prems(2)]
  have inv1: "scan_inv st1"
    and p1: "ss_bestPair st1 \<noteq> [] \<longleftrightarrow>
             ss_bestPair st \<noteq> [] \<or> spreadSeen (clock k) (fst pr) (snd pr)"
    by simp_all
  from Cons.IH [OF more inv1]
  have inv: "scan_inv st'"
    and p2: "ss_bestPair st' \<noteq> [] \<longleftrightarrow>
             ss_bestPair st1 \<noteq> []
             \<or> (\<exists>i<length rest. spreadSeen (clock (Suc k + i)) (fst (rest ! i)) (snd (rest ! i)))"
    by simp_all
  have shift: "(\<exists>i<length (pr # rest).
                  spreadSeen (clock (k + i)) (fst ((pr # rest) ! i)) (snd ((pr # rest) ! i)))
               \<longleftrightarrow> spreadSeen (clock k) (fst pr) (snd pr)
                   \<or> (\<exists>i<length rest.
                         spreadSeen (clock (Suc k + i)) (fst (rest ! i)) (snd (rest ! i)))"
    by (simp add: Ex_less_Suc2 del: length_Cons add: length_Cons [symmetric])
  from inv p1 p2 shift show ?case by blast
qed

lemma pairStep_config:
  assumes "cfg_minProfitPercent cfg' = cfg_minProfitPercent cfg"
    and "cfg_discoverySlippage cfg' = cfg_discoverySlippage cfg"
    and "cfg_slippageTolerance cfg' = cfg_slippageTolerance cfg"
  shows "pairStep cfg' now price1 price2 st = pairStep cfg now price1 price2 st"
proof -
  have "buyFactor cfg' = buyFactor cfg" and "sellFactor cfg' = sellFactor cfg"
    using assms by (simp_all add: buyFactor_def sellFactor_def split: option.splits)
  then show ?thesis
    using assms(1) by (simp add: pairStep_def Let_def)
qed

lemma scanPairs_config:
  assumes "cfg_minProfitPercent cfg' = cfg_minProfitPercent cfg"
    and "cfg_discoverySlippage cfg' = cfg_discoverySlippage cfg"
    and "cfg_slippageTolerance cfg' = cfg_slippageTolerance cfg"
  shows "scanPairs cfg' clock k ps st = scanPairs cfg clock k ps st"
  by (induction ps arbitrary: k st)
     (simp_all add: pairStep_config [OF assms] split: sum.splits)

lemma scan_inv_init: "scan_inv scan_init"
  by (simp add: scan_inv_def scan_init_def)

lemma findArbitrageOpportunities_console:
  assumes "scanPairs cfg clock 0 (pairs_of prices) scan_init = Inr st"
  shows "length (fst (findArbitrageOpportunities cfg clock prices tokenSymbol))
         = (if ss_bestPair st \<noteq> [] then 1 else 0)"
  using assms by (simp add: findArbitrageOpportunities_def Let_def)

text \<open>Without a zero price and with a non-zero slippage factor no division by zero occurs.\<close>

lemma pairStep_finite:
  assumes "pp_price price1 \<noteq> 0" and "pp_price price2 \<noteq> 0" and "buyFactor cfg \<noteq> 0"
  shows "\<exists>st'. pairStep cfg now price1 price2 st = Inr st'"
proof -
  have "min (pp_price price1) (pp_price price2) \<noteq> 0"
    using assms(1,2) by (simp add: min_def)
  with assms(3) show ?thesis
    by (simp add: pairStep_def Let_def)
qed

lemma pairs_of_set: "pr \<in> set (pairs_of xs) \<Longrightarrow> fst pr \<in> set xs \<and> snd pr \<in> set xs"
  by (induction xs) auto

lemma scanPairs_finite:
  assumes "\<forall>pr\<in>set ps. pp_price (fst pr) \<noteq> 0 \<and> pp_price (snd pr) \<noteq> 0"
    and "buyFactor cfg \<noteq> 0"
  shows "\<exists>st'. scanPairs cfg clock k ps st = Inr st'"
  using assms(1)
proof (induction ps arbitrary: k st)
  case Nil
  show ?case by simp
next
  case (Cons pr rest)
  from Cons.prems have "pp_price (fst pr) \<noteq> 0" and "pp_price (snd pr) \<noteq> 0"
    by simp_all
  from pairStep_finite [OF this assms(2)]
  obtain st1 where one: "pairStep cfg (clock k) (fst pr) (snd pr) st = Inr st1"
    by blast
  from Cons.prems have "\<forall>pr\<in>set rest. pp_price (fst pr) \<noteq> 0 \<and> pp_price (snd pr) \<noteq> 0"
    by simp
  from Cons.IH [OF this] obtain st' where "scanPairs cfg clock (Suc k) rest st1 = Inr st'"
    by blast
  with one show ?case by simp
qed

text \<open>
  C9, as amended, for price lists without a zero price and a configuration whose slippage
  factor is not zero (no division by zero occurs): the value \<open>findArbitrageOpportunities\<close>
  returns is a function of the price list, the clock readings and the configuration (the
  minimum profit, the two slippage settings and whether a webhook is set): it is the same
  for another token symbol and for a configuration that agrees on these. The function is
  not free of output: it writes one best-spread line to the console when some pair of fresh
  points from distinct venues has a positive raw spread, and no line otherwise.
\<close>

theorem scan_result_determined_console_written:
  assumes "cfg_minProfitPercent cfg' = cfg_minProfitPercent cfg"
    and "cfg_discoverySlippage cfg' = cfg_discoverySlippage cfg"
    and "cfg_slippageTolerance cfg' = cfg_slippageTolerance cfg"
    and "webhookSet cfg' = webhookSet cfg"
    and "\<forall>p\<in>set prices. pp_price p \<noteq> 0"
    and "buyFactor cfg \<noteq> 0"
  shows "snd (findArbitrageOpportunities cfg' clock prices tokenSymbol')
           = snd (findArbitrageOpportunities cfg clock prices tokenSymbol)
       \<and> length (fst (findArbitrageOpportunities cfg clock prices tokenSymbol))
           = (if \<exists>i<length (pairs_of prices).
                   spreadSeen (clock i) (fst (pairs_of prices ! i)) (snd (pairs_of prices ! i))
              then 1 else 0)"
proof -
  have same: "scanPairs cfg' clock 0 (pairs_of prices) scan_init
              = scanPairs cfg clock 0 (pairs_of prices) scan_init"
    by (rule scanPairs_config [OF assms(1-3)])
  have result: "snd (findArbitrageOpportunities cfg' clock prices tokenSymbol')
                = snd (findArbitrageOpportunities cfg clock prices tokenSymbol)"
    by (simp add: findArbitrageOpportunities_def Let_def same assms(1,4) split: sum.splits)
  have "\<forall>pr\<in>set (pairs_of prices). pp_price (fst pr) \<noteq> 0 \<and> pp_price (snd pr) \<noteq> 0"
    using assms(5) pairs_of_set by blast
  from scanPairs_finite [OF this assms(6)]
  obtain st where st: "scanPairs cfg clock 0 (pairs_of prices) scan_init = Inr st"
    by blast
  from scanPairs_bestPair [OF st scan_inv_init]
  have "ss_bestPair st \<noteq> [] \<longleftrightarrow>
        (\<exists>i<length (pairs_of prices).
           spreadSeen (clock i) (fst (pairs_of prices ! i)) (snd (pairs_of prices ! i)))"
    by (simp add: scan_init_def)
  with findArbitrageOpportunities_console [OF st, of tokenSymbol] result
  show ?thesis by simp
qed

theorem scan_result_determined_console_written_witness:
  "cfg_minProfitPercent (cfg_example\<lparr>cfg_maxTradeAmountUsd := 5\<rparr>) = cfg_minProfitPercent cfg_example
   \<and> cfg_discoverySlippage (cfg_example\<lparr>cfg_maxTradeAmountUsd := 5\<rparr>)
       = cfg_discoverySlippage cfg_example
   \<and> cfg_slippageTolerance (cfg_example\<lparr>cfg_maxTradeAmountUsd := 5\<rparr>)
       = cfg_slippageTolerance cfg_example
   \<and> webhookSet (cfg_example\<lparr>cfg_maxTradeAmountUsd := 5\<rparr>) = webhookSet cfg_example
   \<and> pp_price (point ''X'' 100 1000) \<noteq> 0
   \<and> pp_price (point ''Y'' 101 1000) \<noteq> 0
   \<and> buyFactor cfg_example \<noteq> 0
   \<and> snd (findArbitrageOpportunities (cfg_example\<lparr>cfg_maxTradeAmountUsd := 5\<rparr>) at_1000
            [point ''X'' 100 1000, point ''Y'' 101 1000] ''BONK'')
       = snd (findArbitrageOpportunities cfg_example at_1000
            [point ''X'' 100 1000, point ''Y'' 101 1000] ''RAY'')
   \<and> length (fst (findArbitrageOpportunities cfg_example at_1000
            [point ''X'' 100 1000, point ''Y'' 101 1000] ''RAY''))
       = (if \<exists>i<length (pairs_of [point ''X'' 100 1000, point ''Y'' 101 1000]).
               spreadSeen (at_1000 i)
                 (fst (pairs_of [point ''X'' 100 1000, point ''Y'' 101 1000] ! i))
                 (snd (pairs_of [point ''X'' 100 1000, point ''Y'' 101 1000] ! i))
          then 1 else 0)
   \<and> spreadSeen (at_1000 0) (point ''X'' 100 1000) (point ''Y'' 101 1000)"
proof -
  have h1: "cfg_minProfitPercent (cfg_example\<lparr>cfg_maxTradeAmountUsd := 5\<rparr>)
            = cfg_minProfitPercent cfg_example"
    and h2: "cfg_discoverySlippage (cfg_example\<lparr>cfg_maxTradeAmountUsd := 5\<rparr>)
            = cfg_discoverySlippage cfg_example"
    and h3: "cfg_slippageTolerance (cfg_example\<lparr>cfg_maxTradeAmountUsd := 5\<rparr>)
            = cfg_slippageTolerance cfg_example"
    and h4: "webhookSet (cfg_example\<lparr>cfg_maxTradeAmountUsd := 5\<rparr>) = webhookSet cfg_example"
    by (simp_all add: webhookSet_def)
  have h5a: "pp_price (point ''X'' 100 1000) \<noteq> 0"
    and h5b: "pp_price (point ''Y'' 101 1000) \<noteq> 0"
    by (simp_all add: point_def)
  have h5: "\<forall>p\<in>set [point ''X'' 100 1000, point ''Y'' 101 1000]. pp_price p \<noteq> 0"
    using h5a h5b by simp
  have h6: "buyFactor cfg_example \<noteq> 0"
    by (simp add: buyFactor_def cfg_example_def)
  have seen: "spreadSeen (at_1000 0) (point ''X'' 100 1000) (point ''Y'' 101 1000)"
    by (simp add: spreadSeen_def point_def at_1000_def)
  note c = scan_result_determined_console_written [OF h1 h2 h3 h4 h5 h6, of at_1000 "''BONK''" "''RAY''"]
  show ?thesis
    by (intro conjI h1 h2 h3 h4 h5a h5b h6 c [THEN conjunct1] c [THEN conjunct2] seen)
qed

text \<open>
  C9, as stated, fails: the function performs output. On two fresh points of distinct
  venues with prices 100 and 101 it writes the best-spread line to the console.
\<close>

theorem scan_writes_console_line:
  "fst (findArbitrageOpportunities cfg_example at_1000
          [point ''X'' 100 1000, point ''Y'' 101 1000] ''RAY'')
   = [LogBestSpread ''RAY'' 1 ''X->Y'' TagYellow (167 / 100)]"
  by (simp add: scan_defs)

subsection \<open>The price sources\<close>

lemma quoteAll_venues: "distinct (map pp_exchange (quoteAll now resp))"
  by (simp add: quoteAll_def TARGET_DEXES_def map_filter_simps quoteDex_def
      split: option.splits)

lemma getPrices_venues:
  assumes "cache_ok cache"
  shows "distinct (map pp_exchange (fst (getPrices mint now resp tokenSymbol cache)))"
proof (cases "cache tokenSymbol")
  case None
  then show ?thesis
    by (simp add: getPrices_def Let_def quoteAll_venues)
next
  case (Some cached)
  then have "cached \<in> ran cache" by (auto simp: ran_def)
  with assms have "distinct (map pp_exchange (snd cached))"
    by (simp add: cache_ok_def)
  with Some show ?thesis
    by (simp add: getPrices_def Let_def quoteAll_venues)
qed

lemma getPrices_cache_ok:
  assumes "cache_ok cache"
  shows "cache_ok (snd (getPrices mint now resp tokenSymbol cache))"
proof -
  have "cache_ok (cache(tokenSymbol \<mapsto> (now, quoteAll now resp)))"
    unfolding cache_ok_def
  proof
    fix e assume "e \<in> ran (cache(tokenSymbol \<mapsto> (now, quoteAll now resp)))"
    then have "e = (now, quoteAll now resp) \<or> e \<in> ran cache"
      by (auto simp: ran_def split: if_splits)
    with assms show "distinct (map pp_exchange (snd e))"
      by (auto simp: cache_ok_def quoteAll_venues)
  qed
  with assms show ?thesis
    by (simp add: getPrices_def Let_def split: option.splits)
qed

lemma cache_ok_empty: "cache_ok Map.empty"
  by (simp add: cache_ok_def)

text \<open>
  C10: \<open>fetchAllPrices\<close> returns the result of the primary source exactly when that result
  holds points of at least two distinct venues (the code tests its length, and the primary
  source yields at most one point per venue); otherwise it returns the points of the
  secondary source that pass the filter, in their order. Every point whose liquidity is
  below 10000 or whose volume is below 500 is removed, and no point above both thresholds
  is removed.
\<close>

theorem fetchAllPrices_source_and_filter:
  assumes "cache_ok cache"
  shows "fst (fetchAllPrices mint now resp dexPrices tokenSymbol cache)
         = (if 2 \<le> card (pp_exchange ` set (fst (getPrices mint now resp tokenSymbol cache)))
            then fst (getPrices mint now resp tokenSymbol cache)
            else fallbackPrices dexPrices)
       \<and> fallbackPrices dexPrices
         = filter (\<lambda>p. 10000 < pp_liquidity p \<and> 500 < pp_volume24h p)
             (case dexPrices of None \<Rightarrow> [] | Some values \<Rightarrow> values)
       \<and> (\<forall>p\<in>set (case dexPrices of None \<Rightarrow> [] | Some values \<Rightarrow> values).
            (pp_liquidity p < 10000 \<or> pp_volume24h p < 500
               \<longrightarrow> p \<notin> set (fallbackPrices dexPrices))
          \<and> (10000 < pp_liquidity p \<and> 500 < pp_volume24h p
               \<longrightarrow> p \<in> set (fallbackPrices dexPrices)))"
proof -
  let ?primary = "fst (getPrices mint now resp tokenSymbol cache)"
  have "card (pp_exchange ` set ?primary) = card (set (map pp_exchange ?primary))"
    by simp
  also have "\<dots> = length (map pp_exchange ?primary)"
    by (rule distinct_card [OF getPrices_venues [OF assms]])
  finally have venues: "card (pp_exchange ` set ?primary) = length ?primary"
    by simp
  have source: "fst (fetchAllPrices mint now resp dexPrices tokenSymbol cache)
         = (if 2 \<le> card (pp_exchange ` set ?primary) then ?primary else fallbackPrices dexPrices)"
    unfolding venues
    by (simp add: fetchAllPrices_def fetchAllPrices_from_def split: prod.splits)
  have kept: "fallbackPrices dexPrices
         = filter (\<lambda>p. 10000 < pp_liquidity p \<and> 500 < pp_volume24h p)
             (case dexPrices of None \<Rightarrow> [] | Some values \<Rightarrow> values)"
    by (simp add: fallbackPrices_def split: option.splits)
  have removed: "\<forall>p\<in>set (case dexPrices of None \<Rightarrow> [] | Some values \<Rightarrow> values).
            (pp_liquidity p < 10000 \<or> pp_volume24h p < 500
               \<longrightarrow> p \<notin> set (fallbackPrices dexPrices))
          \<and> (10000 < pp_liquidity p \<and> 500 < pp_volume24h p
               \<longrightarrow> p \<in> set (fallbackPrices dexPrices))"
    unfolding kept by auto
  from source kept removed show ?thesis by (intro conjI)
qed

theorem fetchAllPrices_source_and_filter_witness:
  "cache_ok Map.empty
   \<and> fst (fetchAllPrices (Some ''mint'') 1000 resp_raydium_only (Some pools_example) ''RAY''
            Map.empty)
       = (if 2 \<le> card (pp_exchange `
                 set (fst (getPrices (Some ''mint'') 1000 resp_raydium_only ''RAY'' Map.empty)))
          then fst (getPrices (Some ''mint'') 1000 resp_raydium_only ''RAY'' Map.empty)
          else fallbackPrices (Some pools_example))
   \<and> fallbackPrices (Some pools_example)
       = filter (\<lambda>p. 10000 < pp_liquidity p \<and> 500 < pp_volume24h p)
           (case Some pools_example of None \<Rightarrow> [] | Some values \<Rightarrow> values)"
proof -
  note c = fetchAllPrices_source_and_filter [OF cache_ok_empty,
      of "Some ''mint''" 1000 resp_raydium_only "Some pools_example" "''RAY''"]
  show ?thesis
    by (intro conjI cache_ok_empty c [THEN conjunct1] c [THEN conjunct2, THEN conjunct1])
qed

text \<open>
  The two branches of \<open>fetchAllPrices\<close>, evaluated: with one venue answering, the filtered
  pools of the secondary source are returned (the pool below the liquidity threshold and
  the pool exactly on it are removed); with two venues answering, the primary result.
\<close>

lemma fetchAllPrices_examples:
  "fst (fetchAllPrices (Some ''mint'') 1000 resp_raydium_only (Some pools_example) ''RAY''
          Map.empty) = [pools_example ! 0]"
  "map pp_exchange (fst (fetchAllPrices (Some ''mint'') 1000 resp_two_venues
          (Some pools_example) ''RAY'' Map.empty)) = [''Raydium'', ''Orca'']"
  by (simp_all add: fetchAllPrices_def fetchAllPrices_from_def getPrices_def quoteAll_def
      TARGET_DEXES_def map_filter_simps quoteDex_def resp_raydium_only_def resp_two_venues_def
      fallbackPrices_def pools_example_def truthy_def Let_def)

end
